theory Spec2Isabelle
  imports Complex_Main "HOL-Library.Sublist"
begin

section \<open>Physical constants and atomic-unit conversion (\<open>pyps/constants.py\<close>)\<close>

text \<open>
  A shallow embedding of the module \<open>pyps/constants.py\<close>: the CODATA constants the
  conversion table is built from, the table \<open>conversion_data\<close> as the module's top-level
  statements build it, the decorator factory \<open>atomic_units\<close> and the two converters
  \<open>convert_au\<close> and \<open>revert_au\<close>.

  Modelling decisions.
  \<^item> A Python \<open>float\<close> is an IEEE 754 binary64 value: a finite value (carried as the
    real number it denotes), an infinity or a NaN. Every arithmetic operation computes the
    exact real result and rounds it to the nearest binary64 value, ties to even
    (\<open>round64\<close>), so rounding, overflow to infinity and gradual underflow are part of the
    model. The two zeros are one value (they compare equal in Python, and the module
    divides by no zero).
  \<^item> \<open>x ** 2.0\<close> is taken to be the correctly rounded square of \<open>x\<close>.
  \<^item> A \<open>dict\<close> is an association list in insertion order with unique keys, because
    the error message of the wrapper prints \<open>list(data.keys())\<close>.
  \<^item> An exception is a value \<open>Inl err\<close> of a sum type.
  \<^item> The positional and keyword arguments forwarded to the wrapped function are one
    value of an arbitrary type \<open>'a\<close>; the keyword-only argument \<open>units\<close> is a
    \<open>string option\<close> (\<open>None\<close> is Python's \<open>None\<close>).
\<close>

subsection \<open>Binary64 floats\<close>

datatype pyfloat = Fin real | PosInf | NegInf | NaN

text \<open>
  The binary exponent of a positive real, found by bisection on the exponents
  \<open>lo \<le> k < hi\<close>: the \<open>k\<close> with \<open>2^k \<le> y < 2^(k+1)\<close>, and \<open>lo\<close> for a smaller \<open>y\<close>.
\<close>

fun expo_search :: "nat \<Rightarrow> int \<Rightarrow> int \<Rightarrow> real \<Rightarrow> int" where
  "expo_search 0 lo hi y = lo"
| "expo_search (Suc n) lo hi y =
     (if hi \<le> lo + 1 then lo
      else let mid = (lo + hi) div 2
           in if 2 powi mid \<le> y then expo_search n mid hi y else expo_search n lo mid y)"

text \<open>The exponent of the binade of \<open>y\<close>, at least that of the subnormal numbers.\<close>

definition expo :: "real \<Rightarrow> int" where
  "expo y = expo_search 11 (- 1022) 1024 \<bar>y\<bar>"

text \<open>The nearest integer, ties to the even one.\<close>

definition rne :: "real \<Rightarrow> int" where
  "rne z = (let n = \<lfloor>z\<rfloor>; d = z - of_int n
            in if d < 1 / 2 then n else if 1 / 2 < d then n + 1 else if even n then n else n + 1)"

text \<open>
  Rounding to binary64: the nearest multiple of the spacing \<open>2^(expo y - 52)\<close> of the
  binade of \<open>y\<close>, an infinity when that passes the largest finite value.
\<close>

definition round64 :: "real \<Rightarrow> pyfloat" where
  "round64 y = (let q = 2 powi (expo y - 52); r = of_int (rne (y / q)) * q
                in if 2 ^ 1024 \<le> r then PosInf else if r \<le> - (2 ^ 1024) then NegInf else Fin r)"

text \<open>The product of two floats.\<close>

fun fmul :: "pyfloat \<Rightarrow> pyfloat \<Rightarrow> pyfloat" where
  "fmul (Fin a) (Fin b) = round64 (a * b)"
| "fmul (Fin a) PosInf = (if a = 0 then NaN else if 0 < a then PosInf else NegInf)"
| "fmul (Fin a) NegInf = (if a = 0 then NaN else if 0 < a then NegInf else PosInf)"
| "fmul PosInf (Fin b) = (if b = 0 then NaN else if 0 < b then PosInf else NegInf)"
| "fmul NegInf (Fin b) = (if b = 0 then NaN else if 0 < b then NegInf else PosInf)"
| "fmul PosInf PosInf = PosInf"
| "fmul PosInf NegInf = NegInf"
| "fmul NegInf PosInf = NegInf"
| "fmul NegInf NegInf = PosInf"
| "fmul NaN y = NaN"
| "fmul x NaN = NaN"

subsection \<open>Python values and exceptions\<close>

datatype pyval =
    PNone
  | PBool bool
  | PInt int
  | PFloat pyfloat
  | PStr string
  | PList "pyval list"
  | PTuple "pyval list"

datatype pyerr =
    KeyError string
  | ValueError string
  | TypeError
  | ZeroDivisionError
  | OverflowError
  | Raised string

text \<open>Sequencing of computations that may raise: the first exception wins.\<close>

definition then_do :: "pyerr + 'a \<Rightarrow> ('a \<Rightarrow> pyerr + 'b) \<Rightarrow> pyerr + 'b" where
  "then_do m k = (case m of Inl err \<Rightarrow> Inl err | Inr x \<Rightarrow> k x)"

text \<open>\<open>x / y\<close> on floats: Python raises on a zero divisor before it divides.\<close>

fun float_truediv :: "pyfloat \<Rightarrow> pyfloat \<Rightarrow> pyerr + pyfloat" where
  "float_truediv x (Fin b) =
     (if b = 0 then Inl ZeroDivisionError
      else Inr (case x of
                  Fin a \<Rightarrow> round64 (a / b)
                | PosInf \<Rightarrow> if 0 < b then PosInf else NegInf
                | NegInf \<Rightarrow> if 0 < b then NegInf else PosInf
                | NaN \<Rightarrow> NaN))"
| "float_truediv x PosInf = Inr (case x of Fin a \<Rightarrow> Fin 0 | _ \<Rightarrow> NaN)"
| "float_truediv x NegInf = Inr (case x of Fin a \<Rightarrow> Fin 0 | _ \<Rightarrow> NaN)"
| "float_truediv x NaN = Inr NaN"

text \<open>
  \<open>x ** 2.0\<close> on floats: the rounded square; for a finite \<open>x\<close> whose square overflows
  Python raises OverflowError.
\<close>

fun float_pow2 :: "pyfloat \<Rightarrow> pyerr + pyfloat" where
  "float_pow2 (Fin a) = (case round64 (a * a) of Fin r \<Rightarrow> Inr (Fin r) | _ \<Rightarrow> Inl OverflowError)"
| "float_pow2 PosInf = Inr PosInf"
| "float_pow2 NegInf = Inr PosInf"
| "float_pow2 NaN = Inr NaN"

text \<open>
  The conversion of an \<open>int\<close> to a \<open>float\<close>: the nearest binary64 value, OverflowError
  when the integer is beyond the finite range.
\<close>

definition int_to_float :: "int \<Rightarrow> pyerr + pyfloat" where
  "int_to_float n = (case round64 (of_int n) of Fin r \<Rightarrow> Inr (Fin r) | _ \<Rightarrow> Inl OverflowError)"

text \<open>
  The operand of float arithmetic as a float: a \<open>float\<close> is itself, \<open>bool\<close> is a
  subclass of \<open>int\<close>, an \<open>int\<close> is converted, anything else is not a number.
\<close>

fun to_float :: "pyval \<Rightarrow> pyerr + pyfloat" where
  "to_float (PFloat x) = Inr x"
| "to_float (PInt n) = int_to_float n"
| "to_float (PBool b) = int_to_float (if b then 1 else 0)"
| "to_float v = Inl TypeError"

fun as_int :: "pyval \<Rightarrow> int option" where
  "as_int (PInt n) = Some n"
| "as_int (PBool b) = Some (if b then 1 else 0)"
| "as_int v = None"

fun is_number :: "pyval \<Rightarrow> bool" where
  "is_number (PFloat x) = True"
| "is_number (PInt n) = True"
| "is_number (PBool b) = True"
| "is_number v = False"

text \<open>\<open>f * r\<close> for a float \<open>f\<close>: the float product for a number \<open>r\<close>, TypeError otherwise.\<close>

definition float_mul :: "pyfloat \<Rightarrow> pyval \<Rightarrow> pyerr + pyval" where
  "float_mul f r = then_do (to_float r) (\<lambda>x. Inr (PFloat (fmul f x)))"

text \<open>
  \<open>v / w\<close>, Python's true division. Two integers are divided exactly and the quotient is
  rounded once; otherwise both operands are converted to floats, left operand first.
\<close>

definition py_truediv :: "pyval \<Rightarrow> pyval \<Rightarrow> pyerr + pyval" where
  "py_truediv v w =
     (case (as_int v, as_int w) of
        (Some a, Some b) \<Rightarrow>
          if b = 0 then Inl ZeroDivisionError
          else (case round64 (of_int a / of_int b) of
                  Fin r \<Rightarrow> Inr (PFloat (Fin r))
                | _ \<Rightarrow> Inl OverflowError)
      | _ \<Rightarrow>
          if is_number v \<and> is_number w then
            then_do (to_float v) (\<lambda>x.
            then_do (to_float w) (\<lambda>y.
            then_do (float_truediv x y) (\<lambda>z. Inr (PFloat z))))
          else Inl TypeError)"

text \<open>\<open>isinstance(result, tuple)\<close>\<close>

fun is_tuple :: "pyval \<Rightarrow> bool" where
  "is_tuple (PTuple rs) = True"
| "is_tuple v = False"

subsection \<open>Dictionaries\<close>

type_synonym 'v pydict = "(string \<times> 'v) list"

definition keys :: "'v pydict \<Rightarrow> string list" where
  "keys d = map fst d"

text \<open>\<open>d[k]\<close>: the value, or \<open>KeyError(k)\<close>.\<close>

definition dict_get :: "'v pydict \<Rightarrow> string \<Rightarrow> pyerr + 'v" where
  "dict_get d k = (case map_of d k of None \<Rightarrow> Inl (KeyError k) | Some v \<Rightarrow> Inr v)"

text \<open>\<open>d[k] = v\<close>: an existing key keeps its position, a new key goes to the end.\<close>

fun dict_set :: "string \<Rightarrow> 'v \<Rightarrow> 'v pydict \<Rightarrow> 'v pydict" where
  "dict_set k v [] = [(k, v)]"
| "dict_set k v (p # ps) = (if fst p = k then (k, v) # ps else p # dict_set k v ps)"

subsection \<open>Constants (CODATA 2018)\<close>

text \<open>A float literal is the binary64 value nearest to its decimal value.\<close>

definition c :: pyfloat where "c = round64 299792458.0"
definition h :: pyfloat where "h = round64 (6.62607015 / 10 ^ 34)"
definition hbar :: pyfloat where "hbar = round64 (1.054571817 / 10 ^ 34)"
definition e :: pyfloat where "e = round64 (1.602176634 / 10 ^ 19)"
definition m_e :: pyfloat where "m_e = round64 (9.1093837015 / 10 ^ 31)"
definition alpha :: pyfloat where "alpha = round64 (7.2973525693 / 10 ^ 3)"
definition mu_me :: pyfloat where "mu_me = round64 0.5"

subsection \<open>The conversion table\<close>

type_synonym registry = "pyfloat pydict pydict"

text \<open>\<open>conversion_data[dimension][unit]\<close>\<close>

definition get_item2 :: "registry \<Rightarrow> string \<Rightarrow> string \<Rightarrow> pyerr + pyfloat" where
  "get_item2 cd dimension unit_name =
     then_do (dict_get cd dimension) (\<lambda>data. dict_get data unit_name)"

text \<open>
  \<open>conversion_data[dimension][unit] = v\<close>: the inner dictionary is looked up (KeyError
  when the dimension is missing) and updated in place.
\<close>

definition set_item2 :: "string \<Rightarrow> string \<Rightarrow> pyfloat \<Rightarrow> registry \<Rightarrow> pyerr + registry" where
  "set_item2 dimension unit_name v cd =
     then_do (dict_get cd dimension)
       (\<lambda>data. Inr (dict_set dimension (dict_set unit_name v data) cd))"

text \<open>
  A chained assignment \<open>conversion_data[d][u1] = conversion_data[d][u2] = ... = v\<close>:
  the value is computed once and stored under the targets from left to right.
\<close>

fun assign_chain :: "string \<Rightarrow> string list \<Rightarrow> pyfloat \<Rightarrow> registry \<Rightarrow> pyerr + registry" where
  "assign_chain dimension [] v cd = Inr cd"
| "assign_chain dimension (u # us) v cd =
     then_do (set_item2 dimension u v cd) (assign_chain dimension us v)"

text \<open>
  The statements of the module that can raise or that build the table, in order: lines 18
  to 20 (\<open>En_h\<close>, \<open>a0\<close>, \<open>mu_B\<close>), line 30 (\<open>a_ps\<close>) and lines 33 to 61. In
  line 18 the two powers are the only operations that can raise, and the products cannot,
  so the powers come first here. The products of lines 24 and 28 raise nothing and are
  used by nothing. The result is the values of \<open>En_h\<close> and \<open>a0\<close> and the table.
\<close>

definition module_init :: "pyerr + pyfloat \<times> pyfloat \<times> registry" where
  "module_init =
     then_do (float_pow2 alpha) (\<lambda>alpha_sq.
     then_do (float_pow2 c) (\<lambda>c_sq.
     then_do (Inr (fmul (fmul alpha_sq m_e) c_sq)) (\<lambda>En_h.
     then_do (float_truediv hbar (fmul (fmul m_e c) alpha)) (\<lambda>a0.
     then_do (float_truediv (fmul e hbar) (fmul (round64 2.0) m_e)) (\<lambda>mu_B.
     then_do (float_truediv a0 mu_me) (\<lambda>a_ps.
     then_do (Inr []) (\<lambda>cd.
     then_do (Inr (dict_set ''energy'' [] cd)) (\<lambda>cd.
     then_do (assign_chain ''energy'' [''SI'', ''joule'', ''J''] En_h cd) (\<lambda>cd.
     then_do (float_truediv En_h e) (\<lambda>v.
     then_do (assign_chain ''energy'' [''electronvolt'', ''eV''] v cd) (\<lambda>cd.
     then_do (float_truediv En_h h) (\<lambda>v.
     then_do (assign_chain ''energy'' [''Hz''] v cd) (\<lambda>cd.
     then_do (float_truediv En_h (fmul c h)) (\<lambda>v.
     then_do (assign_chain ''energy'' [''/m''] v cd) (\<lambda>cd.
     then_do (get_item2 cd ''energy'' ''/m'') (\<lambda>per_m.
     then_do (float_truediv per_m (round64 100.0)) (\<lambda>v.
     then_do (assign_chain ''energy'' [''/cm'', ''wavenumbers'', ''kayser''] v cd) (\<lambda>cd.
     then_do (Inr (dict_set ''length'' [] cd)) (\<lambda>cd.
     then_do (assign_chain ''length'' [''SI'', ''meter'', ''m''] a0 cd) (\<lambda>cd.
     then_do (get_item2 cd ''length'' ''m'') (\<lambda>m.
     then_do (assign_chain ''length'' [''cm''] (fmul m (round64 100.0)) cd) (\<lambda>cd.
     then_do (Inr (dict_set ''electric field'' [] cd)) (\<lambda>cd.
     then_do (float_truediv En_h (fmul e a0)) (\<lambda>v.
     then_do (assign_chain ''electric field'' [''SI'', ''V/m''] v cd) (\<lambda>cd.
     then_do (get_item2 cd ''electric field'' ''V/m'') (\<lambda>v_per_m.
     then_do (assign_chain ''electric field'' [''V/cm''] (fmul v_per_m (round64 100.0)) cd) (\<lambda>cd.
     Inr (En_h, a0, cd))))))))))))))))))))))))))))"

text \<open>
  The values after the module has been imported (NaN and the empty table had the import
  failed; it does not, see \<open>module_init_eq\<close>).
\<close>

definition En_h :: pyfloat where
  "En_h = (case module_init of Inl err \<Rightarrow> NaN | Inr (x, y, cd) \<Rightarrow> x)"

definition a0 :: pyfloat where
  "a0 = (case module_init of Inl err \<Rightarrow> NaN | Inr (x, y, cd) \<Rightarrow> y)"

definition conversion_data :: registry where
  "conversion_data = (case module_init of Inl err \<Rightarrow> [] | Inr (x, y, cd) \<Rightarrow> cd)"

subsection \<open>The decorator factory \<open>atomic_units\<close>\<close>

text \<open>
  \<open>repr\<close> of a string that has no quote, no backslash and no non-printable character
  (every key of the table is such a string), and \<open>str\<close> of a list of such strings.
\<close>

definition repr_str :: "string \<Rightarrow> string" where
  "repr_str s = [CHR 0x27] @ s @ [CHR 0x27]"

fun join_comma :: "string list \<Rightarrow> string" where
  "join_comma [] = []"
| "join_comma [s] = s"
| "join_comma (s # t # ts) = s @ '', '' @ join_comma (t # ts)"

definition str_list :: "string list \<Rightarrow> string" where
  "str_list ks = ''['' @ join_comma (map repr_str ks) @ '']''"

text \<open>
  The message of the ValueError:
  \<open>f"unrecognised {dimension} units : {units} \n" + f"supported units: {supported_units}"\<close>
\<close>

definition unrecognised_msg :: "string \<Rightarrow> string \<Rightarrow> string list \<Rightarrow> string" where
  "unrecognised_msg dimension units supported_units =
     (''unrecognised '' @ dimension @ '' units : '' @ units @ '' '' @ [CHR 0x0A])
     @ (''supported units: '' @ str_list supported_units)"

text \<open>
  The generator \<open>data[units] * r if i < nargs else r for i, r in enumerate(result)\<close>,
  consumed by \<open>tuple\<close> from left to right; \<open>i\<close> is the index of the head of the list.
\<close>

fun rescale_items :: "pyfloat pydict \<Rightarrow> string \<Rightarrow> int \<Rightarrow> nat \<Rightarrow> pyval list \<Rightarrow> pyerr + pyval list" where
  "rescale_items data units nargs i [] = Inr []"
| "rescale_items data units nargs i (r # rs) =
     then_do (if int i < nargs then then_do (dict_get data units) (\<lambda>f. float_mul f r) else Inr r)
       (\<lambda>r'. then_do (rescale_items data units nargs (Suc i) rs) (\<lambda>rs'. Inr (r' # rs')))"

text \<open>The inner function \<open>wrapper\<close>: positional and keyword arguments, and \<open>units=None\<close>.\<close>

definition wrapper ::
  "string \<Rightarrow> int \<Rightarrow> pyfloat pydict \<Rightarrow> ('a \<Rightarrow> pyerr + pyval) \<Rightarrow> 'a \<Rightarrow> string option \<Rightarrow> pyerr + pyval" where
  "wrapper dimension nargs data func args units =
     (case units of
        None \<Rightarrow> func args
      | Some u \<Rightarrow>
          if u \<in> set [''au'', ''atomic_units''] then func args
          else if u \<in> set (keys data) then
            then_do (func args) (\<lambda>result.
              case result of
                PTuple rs \<Rightarrow> then_do (rescale_items data u nargs 0 rs) (\<lambda>rs'. Inr (PTuple rs'))
              | _ \<Rightarrow> then_do (dict_get data u) (\<lambda>f. float_mul f result))
          else Inl (ValueError (unrecognised_msg dimension u (keys data))))"

text \<open>
  \<open>atomic_units(dimension, nargs)\<close>: the table is indexed when the factory is called;
  the result is the decorator, a function from the wrapped function to \<open>wrapper\<close>.
\<close>

definition atomic_units ::
  "string \<Rightarrow> int \<Rightarrow> pyerr + (('a \<Rightarrow> pyerr + pyval) \<Rightarrow> 'a \<Rightarrow> string option \<Rightarrow> pyerr + pyval)" where
  "atomic_units dimension nargs =
     then_do (dict_get conversion_data dimension) (\<lambda>data. Inr (wrapper dimension nargs data))"

subsection \<open>The converters\<close>

text \<open>\<open>atomic_units(dimension)(lambda: value)(units=units)\<close>\<close>

definition convert_au :: "pyval \<Rightarrow> string \<Rightarrow> string option \<Rightarrow> pyerr + pyval" where
  "convert_au v dimension units =
     then_do (atomic_units dimension 1) (\<lambda>decorator. decorator (\<lambda>u::unit. Inr v) () units)"

text \<open>\<open>value / atomic_units(dimension)(lambda: 1)(units=units)\<close>\<close>

definition revert_au :: "pyval \<Rightarrow> string \<Rightarrow> string option \<Rightarrow> pyerr + pyval" where
  "revert_au v dimension units =
     then_do (atomic_units dimension 1) (\<lambda>decorator.
     then_do (decorator (\<lambda>u::unit. Inr (PInt 1)) () units) (\<lambda>factor. py_truediv v factor))"

subsection \<open>The table as data\<close>

text \<open>
  The values of \<open>En_h\<close> and \<open>a0\<close> and the content of \<open>conversion_data\<close> once the
  module has run, written out as the binary64 values they are; that the statements of the
  module produce exactly these is \<open>module_init_eq\<close> below.
\<close>

definition c_value :: real where "c_value = 299792458"
definition h_value :: real where "h_value = 7747209898635537 / 2 ^ 163"
definition hbar_value :: real where "hbar_value = 4932026999131281 / 2 ^ 165"
definition e_value :: real where "e_value = 6655181362828883 / 2 ^ 115"
definition m_e_value :: real where "m_e_value = 5200538747975661 / 2 ^ 152"
definition alpha_value :: real where "alpha_value = 8413274703843997 / 2 ^ 60"
definition mu_me_value :: real where "mu_me_value = 1 / 2"
definition En_h_value :: real where "En_h_value = 2829636103135753 / 2 ^ 109"
definition a0_value :: real where "a0_value = 8188620710683115 / 2 ^ 87"
definition eV_value :: real where "eV_value = 3829662154919681 / 2 ^ 47"
definition Hz_value :: real where "Hz_value = 6579683920488956"
definition per_m_value :: real where "per_m_value = 5891477275029783 / 2 ^ 28"
definition per_cm_value :: real where "per_cm_value = 3770545456019061 / 2 ^ 34"
definition cm_value :: real where "cm_value = 49979374454853 / 2 ^ 73"
definition V_per_m_value :: real where "V_per_m_value = 8424991540443375 / 2 ^ 14"
definition V_per_cm_value :: real where "V_per_cm_value = 6582024640971387 / 2 ^ 7"

definition energy_table :: "pyfloat pydict" where
  "energy_table =
     [(''SI'', Fin En_h_value), (''joule'', Fin En_h_value), (''J'', Fin En_h_value),
      (''electronvolt'', Fin eV_value), (''eV'', Fin eV_value),
      (''Hz'', Fin Hz_value), (''/m'', Fin per_m_value),
      (''/cm'', Fin per_cm_value), (''wavenumbers'', Fin per_cm_value),
      (''kayser'', Fin per_cm_value)]"

definition length_table :: "pyfloat pydict" where
  "length_table =
     [(''SI'', Fin a0_value), (''meter'', Fin a0_value), (''m'', Fin a0_value),
      (''cm'', Fin cm_value)]"

definition field_table :: "pyfloat pydict" where
  "field_table =
     [(''SI'', Fin V_per_m_value), (''V/m'', Fin V_per_m_value), (''V/cm'', Fin V_per_cm_value)]"

subsection \<open>Groups of aliases\<close>

text \<open>
  The targets of each chained assignment of the module with more than one target: the
  unit names that the module stores under one dimension with one value.
\<close>

definition alias_groups :: "(string \<times> string list) list" where
  "alias_groups =
     [(''energy'', [''SI'', ''joule'', ''J'']),
      (''energy'', [''electronvolt'', ''eV'']),
      (''energy'', [''/cm'', ''wavenumbers'', ''kayser'']),
      (''length'', [''SI'', ''meter'', ''m'']),
      (''electric field'', [''SI'', ''V/m''])]"

section \<open>Properties\<close>

subsection \<open>Rounding to binary64\<close>

lemma expo_search_spec:
  assumes "lo < hi" and "hi - lo \<le> 2 ^ n"
  shows "lo \<le> expo_search n lo hi y \<and> expo_search n lo hi y < hi
       \<and> (2 powi lo \<le> y \<longrightarrow> 2 powi (expo_search n lo hi y) \<le> y)
       \<and> (y < 2 powi hi \<longrightarrow> y < 2 powi (expo_search n lo hi y + 1))"
  using assms
proof (induction n arbitrary: lo hi)
  case 0
  then have "hi = lo + 1" by simp
  then show ?case by simp
next
  case (Suc n)
  show ?case
  proof (cases "hi \<le> lo + 1")
    case True
    with Suc.prems have "hi = lo + 1" by simp
    then show ?thesis by simp
  next
    case False
    define mid where "mid = (lo + hi) div 2"
    from False Suc.prems have m1: "lo < mid" and m2: "mid < hi"
      and w1: "mid - lo \<le> 2 ^ n" and w2: "hi - mid \<le> 2 ^ n"
      unfolding mid_def by simp_all
    show ?thesis
    proof (cases "2 powi mid \<le> y")
      case True
      with False have r: "expo_search (Suc n) lo hi y = expo_search n mid hi y"
        by (simp add: mid_def Let_def)
      from Suc.IH [OF m2 w2] True m1 show ?thesis
        unfolding r by auto
    next
      case ge: False
      with False have r: "expo_search (Suc n) lo hi y = expo_search n lo mid y"
        by (simp add: mid_def Let_def)
      from Suc.IH [OF m1 w1] ge m2 show ?thesis
        unfolding r by auto
    qed
  qed
qed

lemma expo_range: "- 1022 \<le> expo y \<and> expo y \<le> 1023"
  using expo_search_spec [of "- 1022" 1024 11 "\<bar>y\<bar>"] by (simp add: expo_def)

lemma expo_lower: "2 powi (- 1022) \<le> \<bar>y\<bar> \<Longrightarrow> 2 powi (expo y) \<le> \<bar>y\<bar>"
  using expo_search_spec [of "- 1022" 1024 11 "\<bar>y\<bar>"] by (simp add: expo_def)

lemma expo_upper: "\<bar>y\<bar> < 2 powi 1024 \<Longrightarrow> \<bar>y\<bar> < 2 powi (expo y + 1)"
  using expo_search_spec [of "- 1022" 1024 11 "\<bar>y\<bar>"] by (simp add: expo_def)

text \<open>The exponent of a number of the normal range is the exponent of its binade.\<close>

lemma expo_eqI:
  assumes k: "- 1022 \<le> k" "k \<le> 1023"
      and lo: "2 powi k \<le> \<bar>y\<bar>" and hi: "\<bar>y\<bar> < 2 powi (k + 1)"
  shows "expo y = k"
proof -
  have "(2::real) powi (- 1022) \<le> 2 powi k"
    using k by (intro power_int_increasing) simp_all
  with lo have l: "2 powi (expo y) \<le> \<bar>y\<bar>"
    by (intro expo_lower) linarith
  have "(2::real) powi (k + 1) \<le> 2 powi 1024"
    using k by (intro power_int_increasing) simp_all
  with hi have u: "\<bar>y\<bar> < 2 powi (expo y + 1)"
    by (intro expo_upper) linarith
  have "\<not> expo y < k"
  proof
    assume "expo y < k"
    then have "(2::real) powi (expo y + 1) \<le> 2 powi k"
      by (intro power_int_increasing) simp_all
    with u lo show False by linarith
  qed
  moreover have "\<not> k < expo y"
  proof
    assume "k < expo y"
    then have "(2::real) powi (k + 1) \<le> 2 powi (expo y)"
      by (intro power_int_increasing) simp_all
    with l hi show False by linarith
  qed
  ultimately show ?thesis by linarith
qed

lemma rne_error: "\<bar>of_int (rne z) - z\<bar> \<le> 1 / 2"
  unfolding rne_def Let_def by (auto simp: abs_if) linarith+

lemma rne_ge_int: "of_int N \<le> z \<Longrightarrow> N \<le> rne z"
proof -
  assume "of_int N \<le> z"
  then have "N \<le> \<lfloor>z\<rfloor>" by (simp add: le_floor_iff)
  then show ?thesis
    unfolding rne_def Let_def by auto
qed

lemma rne_le_int: "z \<le> of_int N \<Longrightarrow> rne z \<le> N"
proof (cases "z = of_int N")
  case True
  then show ?thesis by (simp add: rne_def)
next
  case False
  assume "z \<le> of_int N"
  with False have "z < of_int N" by simp
  then have "\<lfloor>z\<rfloor> < N" by (simp add: floor_less_iff)
  then show ?thesis
    unfolding rne_def Let_def by auto
qed

lemma rne_eqI:
  assumes "\<bar>z - of_int n\<bar> < 1 / 2"
  shows "rne z = n"
proof -
  from assms have "of_int (n - 1) \<le> z - 1 / 2" and "z + 1 / 2 \<le> of_int (n + 1)"
    by (simp_all add: abs_if split: if_splits)
  have lo: "n \<le> rne z"
  proof (rule ccontr)
    assume "\<not> n \<le> rne z"
    then have "rne z \<le> n - 1" by simp
    then have "of_int (rne z) \<le> (of_int (n - 1) :: real)" by (simp only: of_int_le_iff)
    with rne_error [of z] assms show False by (simp add: abs_if split: if_splits)
  qed
  have hi: "rne z \<le> n"
  proof (rule ccontr)
    assume "\<not> rne z \<le> n"
    then have "n + 1 \<le> rne z" by simp
    then have "(of_int (n + 1) :: real) \<le> of_int (rne z)" by (simp only: of_int_le_iff)
    with rne_error [of z] assms show False by (simp add: abs_if split: if_splits)
  qed
  from lo hi show ?thesis by simp
qed

text \<open>
  How a rounding is computed: \<open>y\<close> lies in the binade of exponent \<open>k\<close> and \<open>n\<close> is
  the integer nearest to \<open>y\<close> in units of the spacing of that binade.
\<close>

lemma round64_eqI:
  assumes k: "- 1022 \<le> k" "k \<le> 1023"
      and lo: "2 powi k \<le> \<bar>y\<bar>" and hi: "\<bar>y\<bar> < 2 powi (k + 1)"
      and n: "\<bar>y / 2 powi (k - 52) - of_int n\<bar> < 1 / 2"
      and r: "r = of_int n * 2 powi (k - 52)"
      and fin: "\<bar>r\<bar> < 2 ^ 1024"
  shows "round64 y = Fin r"
proof -
  have e: "expo y = k" using k lo hi by (rule expo_eqI)
  have "rne (y / 2 powi (k - 52)) = n" using n by (rule rne_eqI)
  then show ?thesis
    using fin unfolding round64_def Let_def e r by (simp add: abs_if split: if_splits)
qed

lemma round64_zero: "round64 0 = Fin 0"
  by (simp add: round64_def rne_def)

text \<open>
  The relative error of a rounding in the normal range is at most \<open>2^-53\<close>, and the
  result is finite.
\<close>

lemma round64_error:
  assumes lo: "2 powi (- 1022) \<le> \<bar>y\<bar>" and hi: "\<bar>y\<bar> \<le> 2 ^ 1023"
  shows "\<exists>r. round64 y = Fin r \<and> \<bar>r - y\<bar> \<le> \<bar>y\<bar> / 2 ^ 53"
proof -
  define q :: real where "q = 2 powi (expo y - 52)"
  define r where "r = of_int (rne (y / q)) * q"
  have qpos: "0 < q" by (simp add: q_def)
  have "r - y = (of_int (rne (y / q)) - y / q) * q"
    using qpos by (simp add: r_def field_simps)
  then have "\<bar>r - y\<bar> = \<bar>of_int (rne (y / q)) - y / q\<bar> * q"
    using qpos by (simp add: abs_mult)
  also have "\<dots> \<le> 1 / 2 * q"
    using rne_error [of "y / q"] qpos by (intro mult_right_mono) simp_all
  also have "1 / 2 * q = 2 powi (expo y) / 2 ^ 53"
    by (simp add: q_def power_int_diff)
  also have "\<dots> \<le> \<bar>y\<bar> / 2 ^ 53"
    using expo_lower [OF lo] by (simp add: divide_right_mono)
  finally have err: "\<bar>r - y\<bar> \<le> \<bar>y\<bar> / 2 ^ 53" .
  have "\<bar>r\<bar> \<le> \<bar>y\<bar> + \<bar>y\<bar> / 2 ^ 53"
    using err by linarith
  also have "\<dots> \<le> 2 ^ 1023 + 2 ^ 1023 / 2 ^ 53"
    using hi by (intro add_mono divide_right_mono) simp_all
  also have "\<dots> < (2 ^ 1024 :: real)"
    by simp
  finally have "\<bar>r\<bar> < 2 ^ 1024" .
  then have "round64 y = Fin r"
    unfolding round64_def Let_def q_def [symmetric] r_def [symmetric]
    by (simp add: abs_if split: if_splits)
  with err show ?thesis by blast
qed

text \<open>A real beyond the finite range rounds to an infinity.\<close>

lemma round64_overflow:
  assumes "2 ^ 1024 \<le> y"
  shows "round64 y = PosInf"
proof -
  define q :: real where "q = 2 powi (expo y - 52)"
  define N :: int where "N = 2 ^ nat (1076 - expo y)"
  have qpos: "0 < q" by (simp add: q_def)
  have e: "expo y \<le> 1023" using expo_range by blast
  have "of_int N * q = (2::real) powi (1076 - expo y) * 2 powi (expo y - 52)"
    using e by (simp add: N_def q_def power_int_def)
  also have "\<dots> = 2 powi 1024"
    by (simp flip: power_int_add)
  finally have Nq: "of_int N * q = (2 ^ 1024 :: real)" by simp
  then have "of_int N = 2 ^ 1024 / q" using qpos by (simp add: field_simps)
  also have "\<dots> \<le> y / q" using assms qpos by (simp add: divide_right_mono)
  finally have "N \<le> rne (y / q)" by (rule rne_ge_int)
  then have "of_int N * q \<le> of_int (rne (y / q)) * q"
    using qpos by (simp add: mult_right_mono)
  with Nq have "2 ^ 1024 \<le> of_int (rne (y / q)) * q" by simp
  then show ?thesis
    unfolding round64_def Let_def q_def [symmetric] by simp
qed

lemma round64_overflow_neg:
  assumes "y \<le> - (2 ^ 1024)"
  shows "round64 y = NegInf"
proof -
  define q :: real where "q = 2 powi (expo y - 52)"
  define N :: int where "N = 2 ^ nat (1076 - expo y)"
  have qpos: "0 < q" by (simp add: q_def)
  have e: "expo y \<le> 1023" using expo_range by blast
  have "of_int N * q = (2::real) powi (1076 - expo y) * 2 powi (expo y - 52)"
    using e by (simp add: N_def q_def power_int_def)
  also have "\<dots> = 2 powi 1024"
    by (simp flip: power_int_add)
  finally have Nq: "of_int N * q = (2 ^ 1024 :: real)" by simp
  then have "of_int (- N) = - (2 ^ 1024) / q" using qpos by (simp add: field_simps)
  moreover have "y / q \<le> - (2 ^ 1024) / q"
    using assms qpos by (intro divide_right_mono) simp_all
  ultimately have "y / q \<le> of_int (- N)" by simp
  then have "rne (y / q) \<le> - N" by (rule rne_le_int)
  then have "of_int (rne (y / q)) * q \<le> of_int (- N) * q"
    using qpos by (simp only: mult_right_mono of_int_le_iff less_imp_le)
  with Nq have le: "of_int (rne (y / q)) * q \<le> - (2 ^ 1024)" by simp
  then have "\<not> 2 ^ 1024 \<le> of_int (rne (y / q)) * q" by simp
  with le show ?thesis
    unfolding round64_def Let_def q_def [symmetric] by simp
qed

lemma rne_tie: "rne (of_int m + 1 / 2) = (if even m then m else m + 1)"
proof -
  have "\<lfloor>(of_int m + 1 / 2 :: real)\<rfloor> = m" by linarith
  then show ?thesis by (simp add: rne_def)
qed

text \<open>The same for a tie: \<open>y\<close> is half-way between two neighbours.\<close>

lemma round64_tieI:
  assumes k: "- 1022 \<le> k" "k \<le> 1023"
      and lo: "2 powi k \<le> \<bar>y\<bar>" and hi: "\<bar>y\<bar> < 2 powi (k + 1)"
      and tie: "y / 2 powi (k - 52) = of_int m + 1 / 2"
      and r: "r = of_int (if even m then m else m + 1) * 2 powi (k - 52)"
      and fin: "\<bar>r\<bar> < 2 ^ 1024"
  shows "round64 y = Fin r"
proof -
  have e: "expo y = k" using k lo hi by (rule expo_eqI)
  show ?thesis
    using fin unfolding round64_def Let_def e tie rne_tie r
    by (simp add: abs_if split: if_splits)
qed

subsection \<open>The table\<close>

lemma then_do_Inr [simp]: "then_do (Inr x) k = k x"
  by (simp add: then_do_def)

lemma then_do_Inl [simp]: "then_do (Inl err) k = Inl err"
  by (simp add: then_do_def)

subsection \<open>The values of the constants\<close>

lemma c_eq: "c = Fin c_value"
  unfolding c_def c_value_def
  by (rule round64_eqI [where k = "28" and n = "5029682823036928"]) simp_all

lemma h_eq: "h = Fin h_value"
  unfolding h_def h_value_def
  by (rule round64_eqI [where k = "-111" and n = "7747209898635537"]) simp_all

lemma hbar_eq: "hbar = Fin hbar_value"
  unfolding hbar_def hbar_value_def
  by (rule round64_eqI [where k = "-113" and n = "4932026999131281"]) simp_all

lemma e_eq: "e = Fin e_value"
  unfolding e_def e_value_def
  by (rule round64_eqI [where k = "-63" and n = "6655181362828883"]) simp_all

lemma m_e_eq: "m_e = Fin m_e_value"
  unfolding m_e_def m_e_value_def
  by (rule round64_eqI [where k = "-100" and n = "5200538747975661"]) simp_all

lemma alpha_eq: "alpha = Fin alpha_value"
  unfolding alpha_def alpha_value_def
  by (rule round64_eqI [where k = "-8" and n = "8413274703843997"]) simp_all

lemma mu_me_eq: "mu_me = Fin mu_me_value"
  unfolding mu_me_def mu_me_value_def
  by (rule round64_eqI [where k = "-1" and n = "4503599627370496"]) simp_all


lemma module_init_eq:
  "module_init =
     Inr (Fin En_h_value, Fin a0_value,
       [(''energy'', energy_table), (''length'', length_table), (''electric field'', field_table)])"
proof -
  define two :: real where "two = 2"
  define hundred :: real where "hundred = 100"
  define a2 :: real where "a2 = 982314108421163 / 2 ^ 64"
  define c2 :: real where "c2 = 89875517873681760"
  define t1 :: real where "t1 = 4537315042376575 / 2 ^ 166"
  define mec :: real where "mec = 2904017072505999 / 2 ^ 123"
  define meca :: real where "meca = 678132366250967 / 2 ^ 128"
  define ehbar :: real where "ehbar = 3644144338020557 / 2 ^ 227"
  define two_me :: real where "two_me = 5200538747975661 / 2 ^ 151"
  define mu_B :: real where "mu_B = 6311564196760213 / 2 ^ 129"
  define a_ps :: real where "a_ps = 8188620710683115 / 2 ^ 86"
  define ch :: real where "ch = 4326095987397951 / 2 ^ 134"
  define ea0 :: real where "ea0 = 1512588830327257 / 2 ^ 147"
  have s01: "round64 (alpha_value * alpha_value) = Fin a2"
    unfolding alpha_value_def a2_def
    by (rule round64_eqI [where k = "-15" and n = "7858512867369304"]) simp_all
  have s02: "round64 (c_value * c_value) = Fin c2"
    unfolding c_value_def c2_def
    by (rule round64_eqI [where k = "56" and n = "5617219867105110"]) simp_all
  have s03: "round64 (a2 * m_e_value) = Fin t1"
    unfolding a2_def m_e_value_def t1_def
    by (rule round64_eqI [where k = "-114" and n = "4537315042376575"]) simp_all
  have s04: "round64 (t1 * c2) = Fin En_h_value"
    unfolding t1_def c2_def En_h_value_def
    by (rule round64_eqI [where k = "-58" and n = "5659272206271506"]) simp_all
  have s05: "round64 (m_e_value * c_value) = Fin mec"
    unfolding m_e_value_def c_value_def mec_def
    by (rule round64_eqI [where k = "-72" and n = "5808034145011998"]) simp_all
  have s06: "round64 (mec * alpha_value) = Fin meca"
    unfolding mec_def alpha_value_def meca_def
    by (rule round64_eqI [where k = "-79" and n = "5425058930007736"]) simp_all
  have s07: "round64 (hbar_value / meca) = Fin a0_value"
    unfolding hbar_value_def meca_def a0_value_def
    by (rule round64_eqI [where k = "-35" and n = "8188620710683115"]) simp_all
  have s07z: "meca \<noteq> 0"
    unfolding meca_def by simp
  have s08: "round64 (e_value * hbar_value) = Fin ehbar"
    unfolding e_value_def hbar_value_def ehbar_def
    by (rule round64_eqI [where k = "-176" and n = "7288288676041114"]) simp_all
  have s09: "round64 (two * m_e_value) = Fin two_me"
    unfolding two_def m_e_value_def two_me_def
    by (rule round64_eqI [where k = "-99" and n = "5200538747975661"]) simp_all
  have s10: "round64 (ehbar / two_me) = Fin mu_B"
    unfolding ehbar_def two_me_def mu_B_def
    by (rule round64_eqI [where k = "-77" and n = "6311564196760213"]) simp_all
  have s10z: "two_me \<noteq> 0"
    unfolding two_me_def by simp
  have s11: "round64 (a0_value / mu_me_value) = Fin a_ps"
    unfolding a0_value_def mu_me_value_def a_ps_def
    by (rule round64_eqI [where k = "-34" and n = "8188620710683115"]) simp_all
  have s11z: "mu_me_value \<noteq> 0"
    unfolding mu_me_value_def by simp
  have s12: "round64 (En_h_value / e_value) = Fin eV_value"
    unfolding En_h_value_def e_value_def eV_value_def
    by (rule round64_eqI [where k = "4" and n = "7659324309839362"]) simp_all
  have s12z: "e_value \<noteq> 0"
    unfolding e_value_def by simp
  have s13: "round64 (En_h_value / h_value) = Fin Hz_value"
    unfolding En_h_value_def h_value_def Hz_value_def
    by (rule round64_eqI [where k = "52" and n = "6579683920488956"]) simp_all
  have s13z: "h_value \<noteq> 0"
    unfolding h_value_def by simp
  have s14: "round64 (c_value * h_value) = Fin ch"
    unfolding c_value_def h_value_def ch_def
    by (rule round64_eqI [where k = "-83" and n = "8652191974795902"]) simp_all
  have s15: "round64 (En_h_value / ch) = Fin per_m_value"
    unfolding En_h_value_def ch_def per_m_value_def
    by (rule round64_eqI [where k = "24" and n = "5891477275029783"]) simp_all
  have s15z: "ch \<noteq> 0"
    unfolding ch_def by simp
  have s16: "round64 (per_m_value / hundred) = Fin per_cm_value"
    unfolding per_m_value_def hundred_def per_cm_value_def
    by (rule round64_eqI [where k = "17" and n = "7541090912038122"]) simp_all
  have s16z: "hundred \<noteq> 0"
    unfolding hundred_def by simp
  have s17: "round64 (a0_value * hundred) = Fin cm_value"
    unfolding a0_value_def hundred_def cm_value_def
    by (rule round64_eqI [where k = "-28" and n = "6397359930221184"]) simp_all
  have s18: "round64 (e_value * a0_value) = Fin ea0"
    unfolding e_value_def a0_value_def ea0_def
    by (rule round64_eqI [where k = "-97" and n = "6050355321309028"]) simp_all
  have s19: "round64 (En_h_value / ea0) = Fin V_per_m_value"
    unfolding En_h_value_def ea0_def V_per_m_value_def
    by (rule round64_eqI [where k = "38" and n = "8424991540443375"]) simp_all
  have s19z: "ea0 \<noteq> 0"
    unfolding ea0_def by simp
  have s20: "round64 (V_per_m_value * hundred) = Fin V_per_cm_value"
    unfolding V_per_m_value_def hundred_def V_per_cm_value_def
    by (rule round64_eqI [where k = "45" and n = "6582024640971387"]) simp_all
  have l2: "round64 2 = Fin two"
    unfolding two_def
    by (rule round64_eqI [where k = "1" and n = "4503599627370496"]) simp_all
  have l100: "round64 100 = Fin hundred"
    unfolding hundred_def
    by (rule round64_eqI [where k = "6" and n = "7036874417766400"]) simp_all
  show ?thesis
    unfolding module_init_def
    by (simp add: c_eq h_eq hbar_eq e_eq m_e_eq alpha_eq mu_me_eq l2 l100
        s01 s02 s03 s04 s05 s06 s07 s08 s09 s10 s11 s12 s13 s14 s15 s16 s17 s18 s19 s20 s07z s10z s11z s12z s13z s15z s16z s19z
        set_item2_def get_item2_def dict_get_def energy_table_def length_table_def
        field_table_def)
qed


lemma conversion_data_eq:
  "conversion_data =
     [(''energy'', energy_table), (''length'', length_table), (''electric field'', field_table)]"
  by (simp add: conversion_data_def module_init_eq)

lemma En_h_eq: "En_h = Fin En_h_value"
  by (simp add: En_h_def module_init_eq)

lemma a0_eq: "a0 = Fin a0_value"
  by (simp add: a0_def module_init_eq)

lemma keys_conversion_data: "keys conversion_data = [''energy'', ''length'', ''electric field'']"
  by (simp add: conversion_data_eq keys_def)

lemma keys_energy_table:
  "keys energy_table =
     [''SI'', ''joule'', ''J'', ''electronvolt'', ''eV'', ''Hz'', ''/m'', ''/cm'',
      ''wavenumbers'', ''kayser'']"
  by (simp add: energy_table_def keys_def)

lemma keys_length_table: "keys length_table = [''SI'', ''meter'', ''m'', ''cm'']"
  by (simp add: length_table_def keys_def)

lemma keys_field_table: "keys field_table = [''SI'', ''V/m'', ''V/cm'']"
  by (simp add: field_table_def keys_def)

subsection \<open>Dictionary lookups\<close>

lemma dict_get_missing: "k \<notin> set (keys d) \<Longrightarrow> dict_get d k = Inl (KeyError k)"
proof -
  assume "k \<notin> set (keys d)"
  then have "map_of d k = None"
    by (simp add: keys_def map_of_eq_None_iff)
  then show ?thesis
    by (simp add: dict_get_def)
qed

lemma dict_get_present: "k \<in> set (keys d) \<Longrightarrow> \<exists>v. dict_get d k = Inr v"
proof -
  assume "k \<in> set (keys d)"
  then have "map_of d k \<noteq> None"
    by (simp add: keys_def map_of_eq_None_iff)
  then show ?thesis
    by (auto simp: dict_get_def)
qed

lemma dict_get_Inr_keys: "dict_get d k = Inr v \<Longrightarrow> k \<in> set (keys d)"
  by (rule ccontr) (simp add: dict_get_missing)

lemma dict_get_conversion_data_cases:
  assumes "dict_get conversion_data dimension = Inr data"
  shows "(dimension = ''energy'' \<and> data = energy_table)
       \<or> (dimension = ''length'' \<and> data = length_table)
       \<or> (dimension = ''electric field'' \<and> data = field_table)"
  using assms by (auto simp: dict_get_def conversion_data_eq split: if_splits)

lemma registered_not_sentinel:
  assumes "dict_get conversion_data dimension = Inr data" and "u \<in> set (keys data)"
  shows "u \<noteq> ''au'' \<and> u \<noteq> ''atomic_units''"
  using dict_get_conversion_data_cases [OF assms(1)] assms(2)
  by (auto simp: keys_energy_table keys_length_table keys_field_table)

subsection \<open>The factory and the pass-through branch\<close>

lemma atomic_units_registered:
  "dict_get conversion_data dimension = Inr data \<Longrightarrow>
   atomic_units dimension nargs = Inr (wrapper dimension nargs data)"
  by (simp add: atomic_units_def)

lemma atomic_units_unregistered:
  "dimension \<notin> set (keys conversion_data) \<Longrightarrow> atomic_units dimension nargs = Inl (KeyError dimension)"
  by (simp add: atomic_units_def dict_get_missing)

lemma wrapper_no_conversion:
  "units \<in> {None, Some ''au'', Some ''atomic_units''} \<Longrightarrow>
   wrapper dimension nargs data func args units = func args"
  by (auto simp: wrapper_def)

text \<open>
  Claim C1. For a registered dimension, a call of the wrapped function with \<open>units\<close>
  omitted (\<open>None\<close>) or equal to \<open>"au"\<close> or \<open>"atomic_units"\<close> is the call of the
  function itself on the other arguments: its result, or its exception, is returned as it
  is. In particular \<open>convert_au(x, dim, "au")\<close> and \<open>convert_au(x, dim, None)\<close> are
  \<open>x\<close> for every value \<open>x\<close>.
\<close>

theorem no_conversion_identity:
  assumes "dimension \<in> set (keys conversion_data)"
      and "units \<in> {None, Some ''au'', Some ''atomic_units''}"
  shows "(\<exists>decorator. atomic_units dimension nargs = Inr decorator
            \<and> decorator func args units = func args)
       \<and> convert_au x dimension units = Inr x"
proof -
  from assms(1) obtain data where d: "dict_get conversion_data dimension = Inr data"
    using dict_get_present by blast
  show ?thesis
    using assms(2)
    by (simp add: convert_au_def wrapper_no_conversion atomic_units_registered [OF d])
qed

theorem no_conversion_identity_witness:
  "(\<exists>decorator. atomic_units ''energy'' 1 = Inr decorator
       \<and> decorator (\<lambda>n::int. Inr (PInt (n + 1))) 41 (Some ''au'') = Inr (PInt 42))
   \<and> convert_au (PFloat (Fin 2.5)) ''energy'' (Some ''au'') = Inr (PFloat (Fin 2.5))"
  using no_conversion_identity
    [of "''energy''" "Some ''au''" 1 "\<lambda>n::int. Inr (PInt (n + 1))" 41 "PFloat (Fin 2.5)"]
  by (simp add: keys_conversion_data)

subsection \<open>Unknown dimensions\<close>

text \<open>
  Claim C7, as stated, fails: the factory indexes the table before it returns the
  decorator, so an unregistered dimension raises \<open>KeyError\<close> when \<open>atomic_units\<close> is
  called, before any function is wrapped, and the exception is not the \<open>ValueError\<close> of
  an unknown unit.
\<close>

theorem unknown_dimension_counterexample:
  "atomic_units ''mass'' 1 = Inl (KeyError ''mass'')"
  by (simp add: atomic_units_unregistered keys_conversion_data)

text \<open>
  Claim C7, amended. \<open>atomic_units\<close> checks the dimension when it is called: for an
  unregistered dimension the call itself fails with \<open>KeyError(dimension)\<close>; for a
  registered dimension it succeeds, whatever \<open>nargs\<close> is, and returns the decorator
  closed over that dimension's dictionary.
\<close>

theorem dimension_checked_eagerly:
  "(dimension \<notin> set (keys conversion_data) \<longrightarrow>
      atomic_units dimension nargs = Inl (KeyError dimension))
   \<and> (dimension \<in> set (keys conversion_data) \<longrightarrow>
      (\<exists>data. dict_get conversion_data dimension = Inr data
         \<and> atomic_units dimension nargs = Inr (wrapper dimension nargs data)))"
  using atomic_units_unregistered atomic_units_registered dict_get_present by blast

theorem dimension_checked_eagerly_witness:
  "''charge'' \<notin> set (keys conversion_data)
   \<and> atomic_units ''charge'' 2 = Inl (KeyError ''charge'')
   \<and> ''length'' \<in> set (keys conversion_data)
   \<and> (\<exists>data. dict_get conversion_data ''length'' = Inr data
         \<and> atomic_units ''length'' 2 = Inr (wrapper ''length'' 2 data))"
  using dimension_checked_eagerly [of "''charge''" 2] dimension_checked_eagerly [of "''length''" 2]
  by (simp add: keys_conversion_data)

subsection \<open>The conversion branch\<close>

lemma get_item2_registered:
  assumes "get_item2 conversion_data dimension u = Inr f"
  shows "\<exists>data. dict_get conversion_data dimension = Inr data \<and> dict_get data u = Inr f
           \<and> u \<in> set (keys data) \<and> u \<notin> set [''au'', ''atomic_units'']"
proof (cases "dict_get conversion_data dimension")
  case (Inl err)
  with assms show ?thesis by (simp add: get_item2_def)
next
  case (Inr data)
  with assms have g: "dict_get data u = Inr f" by (simp add: get_item2_def)
  then have k: "u \<in> set (keys data)" by (rule dict_get_Inr_keys)
  from registered_not_sentinel [OF Inr k] g k Inr show ?thesis by simp
qed

lemma wrapper_convert:
  assumes "dict_get data u = Inr f" and "u \<notin> set [''au'', ''atomic_units'']"
  shows "wrapper dimension nargs data func args (Some u) =
           then_do (func args) (\<lambda>result.
              case result of
                PTuple rs \<Rightarrow> then_do (rescale_items data u nargs 0 rs) (\<lambda>rs'. Inr (PTuple rs'))
              | _ \<Rightarrow> float_mul f result)"
proof -
  have k: "u \<in> set (keys data)" using assms(1) by (rule dict_get_Inr_keys)
  show ?thesis
    using assms k
    by (cases "func args") (auto simp: wrapper_def split: pyval.splits)
qed

lemma to_float_not_tuple: "to_float r = Inr x \<Longrightarrow> \<not> is_tuple r"
  by (cases r) simp_all

lemma wrapper_scalar:
  assumes "dict_get data u = Inr f" and "u \<notin> set [''au'', ''atomic_units'']"
      and "func args = Inr r" and "\<not> is_tuple r"
  shows "wrapper dimension nargs data func args (Some u) = float_mul f r"
  using assms(3,4) by (cases r) (simp_all add: wrapper_convert [OF assms(1,2)])

lemma rescale_items_numeric:
  assumes "dict_get data u = Inr f"
      and "\<forall>j<length rs. int (i + j) < nargs \<longrightarrow> (\<exists>x. to_float (rs ! j) = Inr x)"
  shows "\<exists>rs'. rescale_items data u nargs i rs = Inr rs' \<and> length rs' = length rs
           \<and> (\<forall>j<length rs.
                 (int (i + j) < nargs \<longrightarrow>
                    (\<exists>x. to_float (rs ! j) = Inr x \<and> rs' ! j = PFloat (fmul f x)))
                 \<and> (nargs \<le> int (i + j) \<longrightarrow> rs' ! j = rs ! j))"
  using assms(2)
proof (induction rs arbitrary: i)
  case Nil
  then show ?case by simp
next
  case (Cons r rs)
  have tl: "\<forall>j<length rs. int (Suc i + j) < nargs \<longrightarrow> (\<exists>x. to_float (rs ! j) = Inr x)"
  proof (intro allI impI)
    fix j assume "j < length rs" and "int (Suc i + j) < nargs"
    then show "\<exists>x. to_float (rs ! j) = Inr x"
      using Cons.prems [rule_format, of "Suc j"] by simp
  qed
  from Cons.IH [OF tl] obtain rs' where
    r1: "rescale_items data u nargs (Suc i) rs = Inr rs'" and
    r2: "length rs' = length rs" and
    r3: "\<forall>j<length rs.
           (int (Suc i + j) < nargs \<longrightarrow>
              (\<exists>x. to_float (rs ! j) = Inr x \<and> rs' ! j = PFloat (fmul f x)))
           \<and> (nargs \<le> int (Suc i + j) \<longrightarrow> rs' ! j = rs ! j)"
    by blast
  obtain r' where
    h1: "(if int i < nargs then then_do (dict_get data u) (\<lambda>f. float_mul f r) else Inr r) = Inr r'" and
    h2: "int i < nargs \<longrightarrow> (\<exists>x. to_float r = Inr x \<and> r' = PFloat (fmul f x))" and
    h3: "nargs \<le> int i \<longrightarrow> r' = r"
  proof (cases "int i < nargs")
    case True
    with Cons.prems [rule_format, of 0] obtain x where x: "to_float r = Inr x" by auto
    then have "float_mul f r = Inr (PFloat (fmul f x))" by (simp add: float_mul_def)
    with True assms(1) x that show ?thesis by simp
  next
    case False
    with that show ?thesis by simp
  qed
  have "rescale_items data u nargs i (r # rs) = Inr (r' # rs')"
    using h1 r1 by simp
  moreover have "length (r' # rs') = length (r # rs)" using r2 by simp
  moreover have "\<forall>j<length (r # rs).
       (int (i + j) < nargs \<longrightarrow>
          (\<exists>x. to_float ((r # rs) ! j) = Inr x \<and> (r' # rs') ! j = PFloat (fmul f x)))
       \<and> (nargs \<le> int (i + j) \<longrightarrow> (r' # rs') ! j = (r # rs) ! j)"
  proof (intro allI impI)
    fix j assume "j < length (r # rs)"
    then show "(int (i + j) < nargs \<longrightarrow>
          (\<exists>x. to_float ((r # rs) ! j) = Inr x \<and> (r' # rs') ! j = PFloat (fmul f x)))
       \<and> (nargs \<le> int (i + j) \<longrightarrow> (r' # rs') ! j = (r # rs) ! j)"
      using h2 h3 r3 by (cases j) auto
  qed
  ultimately show ?case by blast
qed

lemma int_to_float_overflow:
  assumes "2 ^ 1024 \<le> \<bar>n\<bar>"
  shows "int_to_float n = Inl OverflowError"
proof (cases "0 \<le> n")
  case True
  with assms have "(2 ^ 1024 :: int) \<le> n" by simp
  then have "(of_int (2 ^ 1024) :: real) \<le> of_int n" by (simp only: of_int_le_iff)
  then have "round64 (of_int n) = PosInf" by (intro round64_overflow) simp
  then show ?thesis by (simp add: int_to_float_def)
next
  case False
  with assms have "n \<le> - (2 ^ 1024 :: int)" by simp
  then have "(of_int n :: real) \<le> of_int (- (2 ^ 1024))" by (simp only: of_int_le_iff)
  then have "round64 (of_int n) = NegInf" by (intro round64_overflow_neg) simp
  then show ?thesis by (simp add: int_to_float_def)
qed

subsection \<open>The stored factors\<close>

lemma round64_one: "round64 1 = Fin 1"
  by (rule round64_eqI [where k = "0" and n = "4503599627370496"]) simp_all

text \<open>Every stored factor is a binary64 value between \<open>2^-60\<close> and \<open>2^53\<close>.\<close>

lemma En_h_value_facts:
  "round64 En_h_value = Fin En_h_value" "2 powi (- 60) \<le> En_h_value" "En_h_value \<le> 2 ^ 53"
  unfolding En_h_value_def
  subgoal by (rule round64_eqI [where k = "-58" and n = "5659272206271506"]) simp_all
  subgoal by simp
  subgoal by simp
  done

lemma eV_value_facts:
  "round64 eV_value = Fin eV_value" "2 powi (- 60) \<le> eV_value" "eV_value \<le> 2 ^ 53"
  unfolding eV_value_def
  subgoal by (rule round64_eqI [where k = "4" and n = "7659324309839362"]) simp_all
  subgoal by simp
  subgoal by simp
  done

lemma Hz_value_facts:
  "round64 Hz_value = Fin Hz_value" "2 powi (- 60) \<le> Hz_value" "Hz_value \<le> 2 ^ 53"
  unfolding Hz_value_def
  subgoal by (rule round64_eqI [where k = "52" and n = "6579683920488956"]) simp_all
  subgoal by simp
  subgoal by simp
  done

lemma per_m_value_facts:
  "round64 per_m_value = Fin per_m_value" "2 powi (- 60) \<le> per_m_value" "per_m_value \<le> 2 ^ 53"
  unfolding per_m_value_def
  subgoal by (rule round64_eqI [where k = "24" and n = "5891477275029783"]) simp_all
  subgoal by simp
  subgoal by simp
  done

lemma per_cm_value_facts:
  "round64 per_cm_value = Fin per_cm_value" "2 powi (- 60) \<le> per_cm_value" "per_cm_value \<le> 2 ^ 53"
  unfolding per_cm_value_def
  subgoal by (rule round64_eqI [where k = "17" and n = "7541090912038122"]) simp_all
  subgoal by simp
  subgoal by simp
  done

lemma a0_value_facts:
  "round64 a0_value = Fin a0_value" "2 powi (- 60) \<le> a0_value" "a0_value \<le> 2 ^ 53"
  unfolding a0_value_def
  subgoal by (rule round64_eqI [where k = "-35" and n = "8188620710683115"]) simp_all
  subgoal by simp
  subgoal by simp
  done

lemma cm_value_facts:
  "round64 cm_value = Fin cm_value" "2 powi (- 60) \<le> cm_value" "cm_value \<le> 2 ^ 53"
  unfolding cm_value_def
  subgoal by (rule round64_eqI [where k = "-28" and n = "6397359930221184"]) simp_all
  subgoal by simp
  subgoal by simp
  done

lemma V_per_m_value_facts:
  "round64 V_per_m_value = Fin V_per_m_value" "2 powi (- 60) \<le> V_per_m_value" "V_per_m_value \<le> 2 ^ 53"
  unfolding V_per_m_value_def
  subgoal by (rule round64_eqI [where k = "38" and n = "8424991540443375"]) simp_all
  subgoal by simp
  subgoal by simp
  done

lemma V_per_cm_value_facts:
  "round64 V_per_cm_value = Fin V_per_cm_value" "2 powi (- 60) \<le> V_per_cm_value" "V_per_cm_value \<le> 2 ^ 53"
  unfolding V_per_cm_value_def
  subgoal by (rule round64_eqI [where k = "45" and n = "6582024640971387"]) simp_all
  subgoal by simp
  subgoal by simp
  done


lemma factor_cases:
  assumes "get_item2 conversion_data dimension u = Inr f"
  shows "f \<in> Fin ` {En_h_value, eV_value, Hz_value, per_m_value, per_cm_value, a0_value,
           cm_value, V_per_m_value, V_per_cm_value}"
proof -
  from get_item2_registered [OF assms] obtain data where
    d: "dict_get conversion_data dimension = Inr data" and g: "dict_get data u = Inr f"
    by blast
  from g have m: "(u, f) \<in> set data"
    by (auto simp: dict_get_def split: option.splits dest: map_of_SomeD)
  from dict_get_conversion_data_cases [OF d] show ?thesis
  proof (elim disjE conjE)
    assume "data = energy_table"
    with m show ?thesis by (auto simp: energy_table_def)
  next
    assume "data = length_table"
    with m show ?thesis by (auto simp: length_table_def)
  next
    assume "data = field_table"
    with m show ?thesis by (auto simp: field_table_def)
  qed
qed

lemma factor_facts:
  assumes "get_item2 conversion_data dimension u = Inr f"
  shows "\<exists>r. f = Fin r \<and> round64 r = Fin r \<and> 2 powi (- 60) \<le> r \<and> r \<le> 2 ^ 53"
  using factor_cases [OF assms] En_h_value_facts eV_value_facts Hz_value_facts per_m_value_facts
    per_cm_value_facts a0_value_facts cm_value_facts V_per_m_value_facts V_per_cm_value_facts
  by blast

lemma factor_positive:
  assumes "get_item2 conversion_data dimension u = Inr f"
  shows "\<exists>r. f = Fin r \<and> 0 < r"
proof -
  from factor_facts [OF assms] obtain r where "f = Fin r" and "2 powi (- 60) \<le> r"
    by blast
  moreover have "(0::real) < 2 powi (- 60)" by simp
  ultimately show ?thesis by force
qed

lemma to_float_one: "to_float (PInt 1) = Inr (Fin 1)"
  by (simp add: int_to_float_def round64_one)

text \<open>
  For a registered pair with factor \<open>f\<close>, \<open>convert_au\<close> is the product \<open>f * value\<close>
  of a value that is not a tuple, and \<open>revert_au\<close> is the quotient \<open>value / f\<close>: the
  wrapper around \<open>lambda: 1\<close> returns \<open>f * 1\<close>, which is \<open>f\<close>.
\<close>

lemma convert_au_registered:
  assumes "get_item2 conversion_data dimension u = Inr f" and "\<not> is_tuple v"
  shows "convert_au v dimension (Some u) = float_mul f v"
proof -
  from get_item2_registered [OF assms(1)] obtain data where
    d: "dict_get conversion_data dimension = Inr data" and g: "dict_get data u = Inr f"
    and s: "u \<notin> set [''au'', ''atomic_units'']"
    by blast
  have "wrapper dimension 1 data (\<lambda>u::unit. Inr v) () (Some u) = float_mul f v"
    using g s _ assms(2) by (rule wrapper_scalar) simp
  then show ?thesis
    by (simp add: convert_au_def atomic_units_registered [OF d])
qed

lemma revert_au_registered:
  assumes "get_item2 conversion_data dimension u = Inr f"
  shows "revert_au v dimension (Some u) = py_truediv v (PFloat f)"
proof -
  from get_item2_registered [OF assms] obtain data where
    d: "dict_get conversion_data dimension = Inr data" and g: "dict_get data u = Inr f"
    and s: "u \<notin> set [''au'', ''atomic_units'']"
    by blast
  from factor_facts [OF assms] obtain r where f: "f = Fin r" and i: "round64 r = Fin r"
    by blast
  have "wrapper dimension 1 data (\<lambda>u::unit. Inr (PInt 1)) () (Some u) = float_mul f (PInt 1)"
    using g s by (rule wrapper_scalar) simp_all
  also have "\<dots> = Inr (PFloat f)"
    using f i by (simp add: float_mul_def to_float_one del: to_float.simps)
  finally show ?thesis
    by (simp add: revert_au_def atomic_units_registered [OF d])
qed

lemma py_truediv_floats:
  "b \<noteq> 0 \<Longrightarrow> py_truediv (PFloat (Fin a)) (PFloat (Fin b)) = Inr (PFloat (round64 (a / b)))"
  by (simp add: py_truediv_def)

lemma get_item2_conversion_data:
  "get_item2 conversion_data dimension u =
     (if dimension = ''energy'' then dict_get energy_table u
      else if dimension = ''length'' then dict_get length_table u
      else if dimension = ''electric field'' then dict_get field_table u
      else Inl (KeyError dimension))"
  by (simp add: get_item2_def conversion_data_eq dict_get_def)

lemma get_item2_energy_eV: "get_item2 conversion_data ''energy'' ''eV'' = Inr (Fin eV_value)"
  by (simp add: get_item2_conversion_data dict_get_def energy_table_def)

lemma eV_times_two: "round64 (eV_value * 2) = Fin (3829662154919681 / 2 ^ 46)"
  unfolding eV_value_def
  by (rule round64_eqI [where k = "5" and n = "7659324309839362"]) simp_all

lemma eV_times_three: "round64 (eV_value * 3) = Fin (2872246616189761 / 2 ^ 45)"
  unfolding eV_value_def
  by (rule round64_tieI [where k = "6" and m = "5744493232379521"]) simp_all




text \<open>
  Claim C2. For a registered pair (dimension, unit) with factor \<open>f\<close> and any \<open>nargs\<close>
  (in particular \<open>nargs \<ge> 1\<close>): a result that is a number (a float, a bool, or an int
  that converts to a float) is returned as the float product of \<open>f\<close> and the number; an
  int beyond the float range raises OverflowError instead. A tuple result of length \<open>L\<close>
  whose elements at the indices below \<open>nargs\<close> are such numbers is returned as a tuple
  of length \<open>L\<close> in which the element at each index \<open>i < nargs\<close> is the float product
  of \<open>f\<close> and the original one and each element at an index \<open>i \<ge> nargs\<close> is the
  original one. The witness is the scenario of the specification: \<open>(2.0, 99)\<close> with
  \<open>nargs = 1\<close> and unit \<open>"eV"\<close> gives \<open>(2.0 * En_h / e, 99)\<close>.
\<close>

theorem wrapper_rescales:
  assumes "get_item2 conversion_data dimension u = Inr f"
  shows "\<exists>decorator. atomic_units dimension nargs = Inr decorator
     \<and> (func args = Inr r \<and> to_float r = Inr x \<longrightarrow>
          decorator func args (Some u) = Inr (PFloat (fmul f x)))
     \<and> (func args = Inr (PInt n) \<and> 2 ^ 1024 \<le> \<bar>n\<bar> \<longrightarrow>
          decorator func args (Some u) = Inl OverflowError)
     \<and> (func args = Inr (PTuple rs)
          \<and> (\<forall>i<length rs. int i < nargs \<longrightarrow> (\<exists>y. to_float (rs ! i) = Inr y)) \<longrightarrow>
          (\<exists>rs'. decorator func args (Some u) = Inr (PTuple rs') \<and> length rs' = length rs
             \<and> (\<forall>i<length rs.
                   (int i < nargs \<longrightarrow>
                      (\<exists>y. to_float (rs ! i) = Inr y \<and> rs' ! i = PFloat (fmul f y)))
                   \<and> (nargs \<le> int i \<longrightarrow> rs' ! i = rs ! i))))"
proof -
  from get_item2_registered [OF assms] obtain data where
    d: "dict_get conversion_data dimension = Inr data" and
    g: "dict_get data u = Inr f" and
    s: "u \<notin> set [''au'', ''atomic_units'']"
    by blast
  let ?w = "wrapper dimension nargs data"
  have scalar: "?w func args (Some u) = Inr (PFloat (fmul f x))"
    if "func args = Inr r" and "to_float r = Inr x"
    using that wrapper_scalar [where func = func and args = args, OF g s that(1) to_float_not_tuple [OF that(2)]]
    by (simp add: float_mul_def)
  have big: "?w func args (Some u) = Inl OverflowError"
    if "func args = Inr (PInt n)" and "2 ^ 1024 \<le> \<bar>n\<bar>"
    using wrapper_scalar [where func = func and args = args, OF g s that(1)] int_to_float_overflow [OF that(2)]
    by (simp add: float_mul_def)
  have tuple: "\<exists>rs'. ?w func args (Some u) = Inr (PTuple rs') \<and> length rs' = length rs
             \<and> (\<forall>i<length rs.
                   (int i < nargs \<longrightarrow>
                      (\<exists>y. to_float (rs ! i) = Inr y \<and> rs' ! i = PFloat (fmul f y)))
                   \<and> (nargs \<le> int i \<longrightarrow> rs' ! i = rs ! i))"
    if t: "func args = Inr (PTuple rs)"
      and n: "\<forall>i<length rs. int i < nargs \<longrightarrow> (\<exists>y. to_float (rs ! i) = Inr y)"
  proof -
    from n have "\<forall>j<length rs. int (0 + j) < nargs \<longrightarrow> (\<exists>x. to_float (rs ! j) = Inr x)"
      by simp
    from rescale_items_numeric [OF g this] obtain rs' where
      "rescale_items data u nargs 0 rs = Inr rs'" "length rs' = length rs"
      "\<forall>j<length rs.
         (int (0 + j) < nargs \<longrightarrow>
            (\<exists>x. to_float (rs ! j) = Inr x \<and> rs' ! j = PFloat (fmul f x)))
         \<and> (nargs \<le> int (0 + j) \<longrightarrow> rs' ! j = rs ! j)"
      by blast
    then show ?thesis
      using t by (simp add: wrapper_convert [OF g s])
  qed
  show ?thesis
    using atomic_units_registered [OF d, of nargs] scalar big tuple by blast
qed

theorem wrapper_rescales_witness:
  "get_item2 conversion_data ''energy'' ''eV'' = Inr (Fin eV_value)
   \<and> (\<exists>decorator. atomic_units ''energy'' 1 = Inr decorator
        \<and> decorator (\<lambda>u::unit. Inr (PFloat (Fin 3))) () (Some ''eV'')
            = Inr (PFloat (Fin (2872246616189761 / 2 ^ 45)))
        \<and> decorator (\<lambda>u::unit. Inr (PInt (2 ^ 1024))) () (Some ''eV'') = Inl OverflowError
        \<and> decorator (\<lambda>u::unit. Inr (PTuple [PFloat (Fin 2), PInt 99])) () (Some ''eV'')
            = Inr (PTuple [PFloat (Fin (3829662154919681 / 2 ^ 46)), PInt 99]))"
proof -
  let ?one = "\<lambda>u::unit. (Inr (PFloat (Fin 3)) :: pyerr + pyval)"
  let ?big = "\<lambda>u::unit. (Inr (PInt (2 ^ 1024)) :: pyerr + pyval)"
  let ?rs = "[PFloat (Fin 2), PInt 99]"
  let ?two = "\<lambda>u::unit. (Inr (PTuple ?rs) :: pyerr + pyval)"
  have g: "get_item2 conversion_data ''energy'' ''eV'' = Inr (Fin eV_value)"
    by (rule get_item2_energy_eV)
  from wrapper_rescales [OF g, where nargs = 1 and func = ?one and args = "()"
      and r = "PFloat (Fin 3)" and x = "Fin 3"]
  obtain d1 where a1: "atomic_units ''energy'' 1 = Inr d1"
    and s1: "d1 ?one () (Some ''eV'') = Inr (PFloat (fmul (Fin eV_value) (Fin 3)))"
    by auto
  from wrapper_rescales [OF g, where nargs = 1 and func = ?big and args = "()"
      and n = "2 ^ 1024"]
  obtain d3 where a3: "atomic_units ''energy'' 1 = Inr d3"
    and s3: "d3 ?big () (Some ''eV'') = Inl OverflowError"
    by auto
  from wrapper_rescales [OF g, where nargs = 1 and func = ?two and args = "()" and rs = ?rs]
  obtain d2 where a2: "atomic_units ''energy'' 1 = Inr d2"
    and imp: "?two () = Inr (PTuple ?rs)
          \<and> (\<forall>i<length ?rs. int i < 1 \<longrightarrow> (\<exists>y. to_float (?rs ! i) = Inr y)) \<longrightarrow>
          (\<exists>rs'. d2 ?two () (Some ''eV'') = Inr (PTuple rs') \<and> length rs' = length ?rs
             \<and> (\<forall>i<length ?rs.
                   (int i < 1 \<longrightarrow>
                      (\<exists>y. to_float (?rs ! i) = Inr y \<and> rs' ! i = PFloat (fmul (Fin eV_value) y)))
                   \<and> (1 \<le> int i \<longrightarrow> rs' ! i = ?rs ! i)))"
    by blast
  have hyp: "?two () = Inr (PTuple ?rs)
          \<and> (\<forall>i<length ?rs. int i < 1 \<longrightarrow> (\<exists>y. to_float (?rs ! i) = Inr y))"
    by simp
  from imp hyp obtain rs' where t1: "d2 ?two () (Some ''eV'') = Inr (PTuple rs')"
    and t2: "length rs' = length ?rs"
    and t3: "\<forall>i<length ?rs.
                   (int i < 1 \<longrightarrow>
                      (\<exists>y. to_float (?rs ! i) = Inr y \<and> rs' ! i = PFloat (fmul (Fin eV_value) y)))
                   \<and> (1 \<le> int i \<longrightarrow> rs' ! i = ?rs ! i)"
    by blast
  from t2 obtain y z where yz: "rs' = [y, z]"
    by (cases rs'; cases "tl rs'") auto
  from t3 [rule_format, of 0] yz have "y = PFloat (fmul (Fin eV_value) (Fin 2))"
    by simp
  then have "y = PFloat (Fin (3829662154919681 / 2 ^ 46))"
    by (simp add: eV_times_two)
  moreover from t3 [rule_format, of 1] yz have "z = PInt 99"
    by simp
  ultimately have "d2 ?two () (Some ''eV'')
      = Inr (PTuple [PFloat (Fin (3829662154919681 / 2 ^ 46)), PInt 99])"
    using t1 yz by simp
  moreover have "d2 = d1" "d3 = d1" using a1 a2 a3 by simp_all
  moreover from s1 have "d1 ?one () (Some ''eV'') = Inr (PFloat (Fin (2872246616189761 / 2 ^ 45)))"
    by (simp add: eV_times_three)
  ultimately show ?thesis using g a1 s3 by blast
qed

subsection \<open>The converters\<close>




subsection \<open>The round trip\<close>

lemma round64_big: "round64 (2 ^ 1023) = Fin (2 ^ 1023)"
  by (rule round64_eqI [where k = "1023" and n = "2 ^ 52"]) simp_all

text \<open>
  Claim C4, as stated, fails for large finite values: the product overflows to infinity
  and the division cannot bring it back. The value \<open>2^1023\<close> (about \<open>9e307\<close>, a finite
  binary64 number) converted to \<open>"eV"\<close> is \<open>inf\<close>, and \<open>inf\<close> reverted is \<open>inf\<close>.
\<close>

theorem round_trip_overflow_counterexample:
  "round64 (2 ^ 1023) = Fin (2 ^ 1023)
   \<and> convert_au (PFloat (Fin (2 ^ 1023))) ''energy'' (Some ''eV'') = Inr (PFloat PosInf)
   \<and> revert_au (PFloat PosInf) ''energy'' (Some ''eV'') = Inr (PFloat PosInf)"
proof -
  have g: "get_item2 conversion_data ''energy'' ''eV'' = Inr (Fin eV_value)"
    by (rule get_item2_energy_eV)
  have "(2 ^ 1024 :: real) \<le> eV_value * 2 ^ 1023"
    by (simp add: eV_value_def)
  then have "round64 (eV_value * 2 ^ 1023) = PosInf"
    by (rule round64_overflow)
  then have "convert_au (PFloat (Fin (2 ^ 1023))) ''energy'' (Some ''eV'') = Inr (PFloat PosInf)"
    by (simp add: convert_au_registered [OF g] float_mul_def)
  moreover have "revert_au (PFloat PosInf) ''energy'' (Some ''eV'') = Inr (PFloat PosInf)"
    by (simp add: revert_au_registered [OF g] py_truediv_def eV_value_def)
  ultimately show ?thesis
    using round64_big by blast
qed

text \<open>
  Claim C4, amended. For every registered pair (dimension, unit) and every float \<open>a\<close>
  with \<open>2^-960 \<le> |a| \<le> 2^960\<close>, \<open>convert_au\<close> returns a finite float \<open>y\<close>,
  \<open>revert_au\<close> of \<open>y\<close> returns a finite float \<open>z\<close>, and \<open>z\<close> differs from \<open>a\<close> by
  at most \<open>|a| * 2^-51\<close>.
\<close>

theorem round_trip_within_tolerance:
  assumes reg: "get_item2 conversion_data dimension u = Inr f"
      and lo: "2 powi (- 960) \<le> \<bar>a\<bar>" and hi: "\<bar>a\<bar> \<le> 2 ^ 960"
  shows "\<exists>y z. convert_au (PFloat (Fin a)) dimension (Some u) = Inr (PFloat (Fin y))
           \<and> revert_au (PFloat (Fin y)) dimension (Some u) = Inr (PFloat (Fin z))
           \<and> \<bar>z - a\<bar> \<le> \<bar>a\<bar> / 2 ^ 51"
proof -
  from factor_facts [OF reg] obtain r where f: "f = Fin r"
    and rlo: "2 powi (- 60) \<le> r" and rhi: "r \<le> 2 ^ 53"
    by blast
  have rpos: "0 < r"
  proof -
    have "(0::real) < 2 powi (- 60)" by simp
    with rlo show ?thesis by linarith
  qed
  have apos: "0 < \<bar>a\<bar>"
  proof -
    have "(0::real) < 2 powi (- 960)" by simp
    with lo show ?thesis by linarith
  qed
  \<comment> \<open>the product\<close>
  have p_abs: "\<bar>r * a\<bar> = r * \<bar>a\<bar>"
    using rpos by (simp add: abs_mult)
  have "(2::real) powi (- 1022) \<le> 2 powi (- 60) * 2 powi (- 960)"
    by simp
  also have "\<dots> \<le> r * \<bar>a\<bar>"
    using rlo lo by (intro mult_mono) simp_all
  finally have p_lo: "2 powi (- 1022) \<le> \<bar>r * a\<bar>"
    by (simp only: p_abs)
  have "r * \<bar>a\<bar> \<le> 2 ^ 53 * 2 ^ 960"
    using rhi hi rpos by (intro mult_mono) simp_all
  also have "\<dots> \<le> (2 ^ 1023 :: real)"
    by simp
  finally have p_hi: "\<bar>r * a\<bar> \<le> 2 ^ 1023"
    by (simp only: p_abs)
  from round64_error [OF p_lo p_hi] obtain y where
    y: "round64 (r * a) = Fin y" and ye: "\<bar>y - r * a\<bar> \<le> \<bar>r * a\<bar> / 2 ^ 53"
    by blast
  have fwd: "convert_au (PFloat (Fin a)) dimension (Some u) = Inr (PFloat (Fin y))"
    using f y by (simp add: convert_au_registered [OF reg] float_mul_def)
  \<comment> \<open>the quotient\<close>
  have "y / r - a = (y - r * a) / r"
    using rpos by (simp add: field_simps)
  then have "\<bar>y / r - a\<bar> = \<bar>y - r * a\<bar> / r"
    using rpos by (simp add: abs_divide)
  also have "\<dots> \<le> (\<bar>r * a\<bar> / 2 ^ 53) / r"
    using ye rpos by (intro divide_right_mono) simp_all
  also have "\<dots> = \<bar>a\<bar> / 2 ^ 53"
    using rpos by (simp add: p_abs)
  finally have d1: "\<bar>y / r - a\<bar> \<le> \<bar>a\<bar> / 2 ^ 53" .
  have q_hi': "\<bar>y / r\<bar> \<le> \<bar>a\<bar> + \<bar>a\<bar> / 2 ^ 53"
    using d1 by linarith
  have q_lo': "\<bar>a\<bar> - \<bar>a\<bar> / 2 ^ 53 \<le> \<bar>y / r\<bar>"
    using d1 by linarith
  have "(2::real) powi (- 1022) \<le> 2 powi (- 960) - 2 powi (- 960) / 2 ^ 53"
    by simp
  also have "\<dots> \<le> \<bar>a\<bar> - \<bar>a\<bar> / 2 ^ 53"
    using lo by simp
  finally have q_lo: "2 powi (- 1022) \<le> \<bar>y / r\<bar>"
    using q_lo' by linarith
  have "\<bar>a\<bar> + \<bar>a\<bar> / 2 ^ 53 \<le> 2 ^ 960 + 2 ^ 960 / 2 ^ 53"
    using hi by (intro add_mono divide_right_mono) simp_all
  also have "\<dots> \<le> (2 ^ 1023 :: real)"
    by simp
  finally have q_hi: "\<bar>y / r\<bar> \<le> 2 ^ 1023"
    using q_hi' by linarith
  from round64_error [OF q_lo q_hi] obtain z where
    z: "round64 (y / r) = Fin z" and ze: "\<bar>z - y / r\<bar> \<le> \<bar>y / r\<bar> / 2 ^ 53"
    by blast
  have bwd: "revert_au (PFloat (Fin y)) dimension (Some u) = Inr (PFloat (Fin z))"
    using f z rpos by (simp add: revert_au_registered [OF reg] py_truediv_floats)
  \<comment> \<open>the two errors together\<close>
  have "\<bar>y / r\<bar> / 2 ^ 53 \<le> (\<bar>a\<bar> + \<bar>a\<bar> / 2 ^ 53) / 2 ^ 53"
    using q_hi' by (intro divide_right_mono) simp_all
  with ze have d2: "\<bar>z - y / r\<bar> \<le> (\<bar>a\<bar> + \<bar>a\<bar> / 2 ^ 53) / 2 ^ 53"
    by linarith
  have "\<bar>z - a\<bar> \<le> \<bar>z - y / r\<bar> + \<bar>y / r - a\<bar>"
    by linarith
  also have "\<dots> \<le> (\<bar>a\<bar> + \<bar>a\<bar> / 2 ^ 53) / 2 ^ 53 + \<bar>a\<bar> / 2 ^ 53"
    using d1 d2 by linarith
  also have "\<dots> \<le> \<bar>a\<bar> / 2 ^ 51"
    using apos by (simp add: field_simps)
  finally have "\<bar>z - a\<bar> \<le> \<bar>a\<bar> / 2 ^ 51" .
  with fwd bwd show ?thesis
    by blast
qed

theorem round_trip_within_tolerance_witness:
  "get_item2 conversion_data ''energy'' ''eV'' = Inr (Fin eV_value)
   \<and> 2 powi (- 960) \<le> \<bar>3 :: real\<bar> \<and> \<bar>3 :: real\<bar> \<le> 2 ^ 960
   \<and> (\<exists>y z. convert_au (PFloat (Fin 3)) ''energy'' (Some ''eV'') = Inr (PFloat (Fin y))
           \<and> revert_au (PFloat (Fin y)) ''energy'' (Some ''eV'') = Inr (PFloat (Fin z))
           \<and> \<bar>z - 3\<bar> \<le> 3 / 2 ^ 51)"
proof -
  have g: "get_item2 conversion_data ''energy'' ''eV'' = Inr (Fin eV_value)"
    by (rule get_item2_energy_eV)
  have l: "2 powi (- 960) \<le> \<bar>3 :: real\<bar>" and u: "\<bar>3 :: real\<bar> \<le> 2 ^ 960"
    by simp_all
  from round_trip_within_tolerance [OF g l u] g l u show ?thesis
    by simp
qed

text \<open>
  Claim C9. Every factor stored in the table, under every dimension and every unit name,
  is a finite, strictly positive float; hence for a registered pair the division of
  \<open>revert_au\<close> never raises \<open>ZeroDivisionError\<close>, whatever the value is.
\<close>

theorem factors_positive:
  "(\<forall>(dimension, data) \<in> set conversion_data. \<forall>(u, f) \<in> set data. \<exists>r. f = Fin r \<and> 0 < r)
   \<and> (get_item2 conversion_data dimension u = Inr f \<longrightarrow>
        (\<exists>r. f = Fin r \<and> 0 < r) \<and> revert_au v dimension (Some u) \<noteq> Inl ZeroDivisionError)"
proof -
  have pos: "0 < En_h_value" "0 < eV_value" "0 < Hz_value" "0 < per_m_value" "0 < per_cm_value"
    "0 < a0_value" "0 < cm_value" "0 < V_per_m_value" "0 < V_per_cm_value"
    by (simp_all add: En_h_value_def eV_value_def Hz_value_def per_m_value_def per_cm_value_def
        a0_value_def cm_value_def V_per_m_value_def V_per_cm_value_def)
  have "\<forall>(dimension, data) \<in> set conversion_data. \<forall>(u, f) \<in> set data. \<exists>r. f = Fin r \<and> 0 < r"
    using pos by (simp add: conversion_data_eq energy_table_def length_table_def field_table_def)
  moreover have "(\<exists>r. f = Fin r \<and> 0 < r) \<and> revert_au v dimension (Some u) \<noteq> Inl ZeroDivisionError"
    if reg: "get_item2 conversion_data dimension u = Inr f"
  proof -
    from factor_positive [OF reg] obtain r where f: "f = Fin r" and p: "0 < r"
      by blast
    have "py_truediv v (PFloat (Fin r)) \<noteq> Inl ZeroDivisionError"
      using p
      by (cases v)
        (auto simp: py_truediv_def int_to_float_def then_do_def
          split: pyfloat.splits sum.splits if_splits)
    with f p show ?thesis
      by (simp add: revert_au_registered [OF reg])
  qed
  ultimately show ?thesis by blast
qed

theorem factors_positive_witness:
  "(''electric field'', field_table) \<in> set conversion_data
   \<and> (''V/cm'', Fin V_per_cm_value) \<in> set field_table
   \<and> 0 < V_per_cm_value
   \<and> get_item2 conversion_data ''electric field'' ''V/cm'' = Inr (Fin V_per_cm_value)
   \<and> revert_au (PFloat (Fin 7)) ''electric field'' (Some ''V/cm'') \<noteq> Inl ZeroDivisionError"
proof -
  have g: "get_item2 conversion_data ''electric field'' ''V/cm'' = Inr (Fin V_per_cm_value)"
    by (simp add: get_item2_conversion_data dict_get_def field_table_def)
  have m1: "(''electric field'', field_table) \<in> set conversion_data"
    by (simp add: conversion_data_eq)
  have m2: "(''V/cm'', Fin V_per_cm_value) \<in> set field_table"
    by (simp add: field_table_def)
  from factors_positive [of "''electric field''" "''V/cm''" "Fin V_per_cm_value" "PFloat (Fin 7)"]
  have all: "\<forall>(dimension, data) \<in> set conversion_data. \<forall>(u, f) \<in> set data. \<exists>r. f = Fin r \<and> 0 < r"
    and one: "revert_au (PFloat (Fin 7)) ''electric field'' (Some ''V/cm'') \<noteq> Inl ZeroDivisionError"
    using g by blast+
  from all m1 have "\<forall>(u, f) \<in> set field_table. \<exists>r. f = Fin r \<and> 0 < r" by blast
  with m2 have "\<exists>r. Fin V_per_cm_value = Fin r \<and> 0 < r" by blast
  then have "0 < V_per_cm_value" by simp
  with m1 m2 g one show ?thesis by blast
qed

subsection \<open>Aliases\<close>

text \<open>
  A chained assignment leaves every one of its targets with the assigned value, whatever
  the value is: the aliases of a group are equal by construction, not by arithmetic.
\<close>

lemma map_of_dict_set: "map_of (dict_set k v d) = (map_of d)(k \<mapsto> v)"
  by (induction d) auto

lemma dict_get_dict_set: "dict_get (dict_set k v d) k' = (if k' = k then Inr v else dict_get d k')"
  by (simp add: dict_get_def map_of_dict_set)

lemma set_item2_get:
  assumes "set_item2 dimension u v cd = Inr cd'"
  shows "get_item2 cd' dimension u' = (if u' = u then Inr v else get_item2 cd dimension u')"
proof (cases "dict_get cd dimension")
  case (Inl err)
  with assms show ?thesis by (simp add: set_item2_def)
next
  case (Inr data)
  with assms have "cd' = dict_set dimension (dict_set u v data) cd"
    by (simp add: set_item2_def)
  with Inr show ?thesis
    by (simp add: get_item2_def dict_get_dict_set)
qed

lemma assign_chain_shares:
  "assign_chain dimension us v cd = Inr cd' \<Longrightarrow> u \<in> set us \<Longrightarrow>
   get_item2 cd' dimension u = Inr v"
proof (induction us arbitrary: cd)
  case Nil
  then show ?case by simp
next
  case (Cons a us)
  from Cons.prems(1) obtain cd1 where
    s: "set_item2 dimension a v cd = Inr cd1" and r: "assign_chain dimension us v cd1 = Inr cd'"
    by (cases "set_item2 dimension a v cd") simp_all
  show ?case
  proof (cases "u \<in> set us")
    case True
    with Cons.IH [OF r] show ?thesis by simp
  next
    case False
    with Cons.prems(2) have ua: "u = a" by simp
    have keep: "assign_chain dimension us v cd1 = Inr cd' \<Longrightarrow> a \<notin> set us \<Longrightarrow>
        get_item2 cd' dimension a = get_item2 cd1 dimension a" for cd1 cd'
    proof (induction us arbitrary: cd1)
      case Nil
      then show ?case by simp
    next
      case (Cons b us)
      from Cons.prems(1) obtain cd2 where
        s2: "set_item2 dimension b v cd1 = Inr cd2" and r2: "assign_chain dimension us v cd2 = Inr cd'"
        by (cases "set_item2 dimension b v cd1") simp_all
      from Cons.prems(2) have "a \<noteq> b" "a \<notin> set us" by auto
      with Cons.IH [OF r2] set_item2_get [OF s2, of a] show ?case by simp
    qed
    from keep [OF r] False ua set_item2_get [OF s, of a] show ?thesis by simp
  qed
qed

lemma rescale_items_same_factor:
  "dict_get data a = dict_get data b \<Longrightarrow>
   rescale_items data a nargs i rs = rescale_items data b nargs i rs"
  by (induction rs arbitrary: i) simp_all

lemma alias_pair:
  assumes eq: "get_item2 conversion_data dimension a = get_item2 conversion_data dimension b"
      and reg: "\<exists>f. get_item2 conversion_data dimension a = Inr f"
  shows "(\<exists>f. get_item2 conversion_data dimension a = Inr f
            \<and> get_item2 conversion_data dimension b = Inr f)
       \<and> (\<forall>x. convert_au x dimension (Some a) = convert_au x dimension (Some b))"
proof -
  from reg obtain f where fa: "get_item2 conversion_data dimension a = Inr f"
    by blast
  with eq have fb: "get_item2 conversion_data dimension b = Inr f"
    by simp
  from get_item2_registered [OF fa] obtain data where
    d: "dict_get conversion_data dimension = Inr data" and ga: "dict_get data a = Inr f"
    and sa: "a \<notin> set [''au'', ''atomic_units'']"
    by blast
  from get_item2_registered [OF fb] d have gb: "dict_get data b = Inr f"
    and sb: "b \<notin> set [''au'', ''atomic_units'']"
    by auto
  have r: "rescale_items data a 1 0 rs = rescale_items data b 1 0 rs" for rs
    using ga gb by (simp add: rescale_items_same_factor)
  have "convert_au x dimension (Some a) = convert_au x dimension (Some b)" for x
    by (cases x)
      (simp_all add: convert_au_def atomic_units_registered [OF d] wrapper_convert [OF ga sa]
        wrapper_convert [OF gb sb] r)
  with fa fb show ?thesis
    by blast
qed

lemma alias_group:
  assumes "\<forall>a \<in> set us. get_item2 conversion_data dimension a = Inr f"
  shows "\<forall>a \<in> set us. \<forall>b \<in> set us.
     (\<exists>f. get_item2 conversion_data dimension a = Inr f
           \<and> get_item2 conversion_data dimension b = Inr f)
     \<and> (\<forall>x. convert_au x dimension (Some a) = convert_au x dimension (Some b))"
proof (intro ballI)
  fix a b assume "a \<in> set us" and "b \<in> set us"
  with assms have "get_item2 conversion_data dimension a = Inr f"
    and "get_item2 conversion_data dimension b = Inr f"
    by blast+
  then show "(\<exists>f. get_item2 conversion_data dimension a = Inr f
           \<and> get_item2 conversion_data dimension b = Inr f)
     \<and> (\<forall>x. convert_au x dimension (Some a) = convert_au x dimension (Some b))"
    by (intro alias_pair) simp_all
qed

text \<open>
  Claim C6. Within each group of aliases (the targets of one chained assignment) the
  stored factors are one and the same value, and \<open>convert_au\<close> gives the same result
  for any two aliases of a group, for every value.
\<close>

theorem aliases_share_factor:
  "\<forall>(dimension, us) \<in> set alias_groups. \<forall>a \<in> set us. \<forall>b \<in> set us.
     (\<exists>f. get_item2 conversion_data dimension a = Inr f
           \<and> get_item2 conversion_data dimension b = Inr f)
     \<and> (\<forall>x. convert_au x dimension (Some a) = convert_au x dimension (Some b))"
proof -
  have g1: "\<forall>a \<in> set [''SI'', ''joule'', ''J'']. get_item2 conversion_data ''energy'' a = Inr (Fin En_h_value)"
    by (simp add: get_item2_conversion_data dict_get_def energy_table_def)
  have g2: "\<forall>a \<in> set [''electronvolt'', ''eV'']. get_item2 conversion_data ''energy'' a = Inr (Fin eV_value)"
    by (simp add: get_item2_conversion_data dict_get_def energy_table_def)
  have g3: "\<forall>a \<in> set [''/cm'', ''wavenumbers'', ''kayser''].
      get_item2 conversion_data ''energy'' a = Inr (Fin per_cm_value)"
    by (simp add: get_item2_conversion_data dict_get_def energy_table_def)
  have g4: "\<forall>a \<in> set [''SI'', ''meter'', ''m'']. get_item2 conversion_data ''length'' a = Inr (Fin a0_value)"
    by (simp add: get_item2_conversion_data dict_get_def length_table_def)
  have g5: "\<forall>a \<in> set [''SI'', ''V/m''].
      get_item2 conversion_data ''electric field'' a = Inr (Fin V_per_m_value)"
    by (simp add: get_item2_conversion_data dict_get_def field_table_def)
  have "\<forall>a \<in> set us. \<forall>b \<in> set us.
       (\<exists>f. get_item2 conversion_data dimension a = Inr f
           \<and> get_item2 conversion_data dimension b = Inr f)
       \<and> (\<forall>x. convert_au x dimension (Some a) = convert_au x dimension (Some b))"
    if "(dimension, us) \<in> set alias_groups" for dimension us
  proof -
    from that have "(dimension = ''energy'' \<and> us = [''SI'', ''joule'', ''J''])
        \<or> (dimension = ''energy'' \<and> us = [''electronvolt'', ''eV''])
        \<or> (dimension = ''energy'' \<and> us = [''/cm'', ''wavenumbers'', ''kayser''])
        \<or> (dimension = ''length'' \<and> us = [''SI'', ''meter'', ''m''])
        \<or> (dimension = ''electric field'' \<and> us = [''SI'', ''V/m''])"
      unfolding alias_groups_def by simp
    then show ?thesis
    proof (elim disjE conjE)
      assume d: "dimension = ''energy''" and u: "us = [''SI'', ''joule'', ''J'']"
      from alias_group [OF g1] show ?thesis unfolding d u .
    next
      assume d: "dimension = ''energy''" and u: "us = [''electronvolt'', ''eV'']"
      from alias_group [OF g2] show ?thesis unfolding d u .
    next
      assume d: "dimension = ''energy''" and u: "us = [''/cm'', ''wavenumbers'', ''kayser'']"
      from alias_group [OF g3] show ?thesis unfolding d u .
    next
      assume d: "dimension = ''length''" and u: "us = [''SI'', ''meter'', ''m'']"
      from alias_group [OF g4] show ?thesis unfolding d u .
    next
      assume d: "dimension = ''electric field''" and u: "us = [''SI'', ''V/m'']"
      from alias_group [OF g5] show ?thesis unfolding d u .
    qed
  qed
  then show ?thesis
    by blast
qed

theorem aliases_share_factor_witness:
  "(''energy'', [''SI'', ''joule'', ''J'']) \<in> set alias_groups
   \<and> get_item2 conversion_data ''energy'' ''joule'' = Inr En_h
   \<and> get_item2 conversion_data ''energy'' ''J'' = Inr En_h
   \<and> convert_au (PFloat (Fin 2)) ''energy'' (Some ''joule'') = convert_au (PFloat (Fin 2)) ''energy'' (Some ''J'')"
proof -
  have m: "(''energy'', [''SI'', ''joule'', ''J'']) \<in> set alias_groups"
    by (simp add: alias_groups_def)
  have j: "''joule'' \<in> set [''SI'', ''joule'', ''J'']" and k: "''J'' \<in> set [''SI'', ''joule'', ''J'']"
    by simp_all
  from aliases_share_factor m
  have "\<forall>a \<in> set [''SI'', ''joule'', ''J'']. \<forall>b \<in> set [''SI'', ''joule'', ''J''].
     (\<exists>f. get_item2 conversion_data ''energy'' a = Inr f
           \<and> get_item2 conversion_data ''energy'' b = Inr f)
     \<and> (\<forall>x. convert_au x ''energy'' (Some a) = convert_au x ''energy'' (Some b))"
    by blast
  with j k have "\<forall>x. convert_au x ''energy'' (Some ''joule'') = convert_au x ''energy'' (Some ''J'')"
    by blast
  then have "convert_au (PFloat (Fin 2)) ''energy'' (Some ''joule'') = convert_au (PFloat (Fin 2)) ''energy'' (Some ''J'')"
    by blast
  moreover have "get_item2 conversion_data ''energy'' ''joule'' = Inr En_h"
    "get_item2 conversion_data ''energy'' ''J'' = Inr En_h"
    by (simp_all add: get_item2_conversion_data dict_get_def energy_table_def En_h_eq)
  ultimately show ?thesis
    using m by blast
qed


subsection \<open>Literal values\<close>

lemma round64_hundred: "round64 100 = Fin 100"
  by (rule round64_eqI [where k = "6" and n = "7036874417766400"]) simp_all

lemma En_h_div_e: "float_truediv En_h e = Inr (Fin eV_value)"
proof -
  have "round64 (En_h_value / e_value) = Fin eV_value"
    unfolding En_h_value_def e_value_def eV_value_def
    by (rule round64_eqI [where k = "4" and n = "7659324309839362"]) simp_all
  moreover have "e_value \<noteq> 0"
    by (simp add: e_value_def)
  ultimately show ?thesis
    by (simp add: En_h_eq e_eq)
qed

lemma En_h_div_h: "float_truediv En_h h = Inr (Fin Hz_value)"
proof -
  have "round64 (En_h_value / h_value) = Fin Hz_value"
    unfolding En_h_value_def h_value_def Hz_value_def
    by (rule round64_eqI [where k = "52" and n = "6579683920488956"]) simp_all
  moreover have "h_value \<noteq> 0"
    by (simp add: h_value_def)
  ultimately show ?thesis
    by (simp add: En_h_eq h_eq)
qed

lemma a0_times_hundred: "fmul a0 (round64 100.0) = Fin cm_value"
proof -
  have "round64 (a0_value * 100) = Fin cm_value"
    unfolding a0_value_def cm_value_def
    by (rule round64_eqI [where k = "-28" and n = "6397359930221184"]) simp_all
  then show ?thesis
    by (simp add: a0_eq round64_hundred)
qed

lemma convert_au_one:
  assumes "get_item2 conversion_data dimension u = Inr f"
  shows "convert_au (PFloat (Fin 1)) dimension (Some u) = Inr (PFloat f)"
proof -
  from factor_facts [OF assms] obtain r where "f = Fin r" and "round64 r = Fin r"
    by blast
  then show ?thesis
    by (simp add: convert_au_registered [OF assms] float_mul_def)
qed

text \<open>
  Claim C8, as stated, fails in its digits: one atomic unit of energy in \<open>"eV"\<close> is
  \<open>En_h / e\<close> with \<open>En_h\<close> computed as \<open>alpha ** 2 * m_e * c ** 2\<close> from the
  constants of the module, and that float is below \<open>27.211386245936\<close>, not
  \<open>27.211386245988...\<close>.
\<close>

theorem hartree_eV_counterexample:
  "float_truediv En_h e = Inr (Fin eV_value)
   \<and> convert_au (PFloat (Fin 1)) ''energy'' (Some ''eV'') = Inr (PFloat (Fin eV_value))
   \<and> eV_value < 27.211386245936
   \<and> \<not> (27.211386245988 \<le> eV_value)"
proof -
  have "eV_value < 27.211386245936" "\<not> (27.211386245988 \<le> eV_value)"
    by (simp_all add: eV_value_def)
  with En_h_div_e convert_au_one [OF get_item2_energy_eV] show ?thesis
    by blast
qed

text \<open>
  Claim C8, amended. One atomic unit of energy converts to \<open>En_h / e\<close> in \<open>"eV"\<close>,
  which is \<open>27.2113862459355...\<close>, and to \<open>En_h / h\<close> in \<open>"Hz"\<close>; one atomic unit
  of length converts to \<open>a0 * 100.0\<close> in \<open>"cm"\<close>, which is \<open>5.2917721058...e-9\<close>
  and differs from \<open>5.29177210903e-9\<close> by less than \<open>4e-18\<close>.
\<close>

theorem literal_conversions:
  "float_truediv En_h e = Inr (Fin eV_value)
   \<and> convert_au (PFloat (Fin 1)) ''energy'' (Some ''eV'') = Inr (PFloat (Fin eV_value))
   \<and> 27.2113862459355 < eV_value \<and> eV_value < 27.2113862459356
   \<and> float_truediv En_h h = Inr (Fin Hz_value)
   \<and> convert_au (PFloat (Fin 1)) ''energy'' (Some ''Hz'') = Inr (PFloat (Fin Hz_value))
   \<and> fmul a0 (round64 100.0) = Fin cm_value
   \<and> convert_au (PFloat (Fin 1)) ''length'' (Some ''cm'') = Inr (PFloat (Fin cm_value))
   \<and> 5.2917721058 / 10 ^ 9 < cm_value \<and> cm_value < 5.2917721059 / 10 ^ 9
   \<and> \<bar>cm_value - 5.29177210903 / 10 ^ 9\<bar> < 4 / 10 ^ 18"
proof -
  have g2: "get_item2 conversion_data ''energy'' ''Hz'' = Inr (Fin Hz_value)"
    by (simp add: get_item2_conversion_data dict_get_def energy_table_def)
  have g3: "get_item2 conversion_data ''length'' ''cm'' = Inr (Fin cm_value)"
    by (simp add: get_item2_conversion_data dict_get_def length_table_def)
  have b1: "27.2113862459355 < eV_value" and b2: "eV_value < 27.2113862459356"
    by (simp_all add: eV_value_def)
  have b3: "5.2917721058 / 10 ^ 9 < cm_value" and b4: "cm_value < 5.2917721059 / 10 ^ 9"
    by (simp_all add: cm_value_def)
  have b5: "\<bar>cm_value - 5.29177210903 / 10 ^ 9\<bar> < 4 / 10 ^ 18"
    by (simp add: cm_value_def abs_if)
  from En_h_div_e En_h_div_h a0_times_hundred convert_au_one [OF get_item2_energy_eV]
    convert_au_one [OF g2] convert_au_one [OF g3] b1 b2 b3 b4 b5
  show ?thesis
    by blast
qed

subsection \<open>The shape of the result\<close>

text \<open>
  Claim C10, as stated, fails for its own example: a list result is not multiplied by the
  factor, the product of a float and a list raises TypeError.
\<close>

theorem list_result_counterexample:
  "convert_au (PList [PFloat (Fin 2), PFloat (Fin 3)]) ''energy'' (Some ''eV'') = Inl TypeError"
  by (simp add: convert_au_registered [OF get_item2_energy_eV] float_mul_def)

text \<open>
  Claim C10, amended. Only a tuple result takes the element-wise path governed by
  \<open>nargs\<close>: of a pair of floats the first is scaled when \<open>nargs \<ge> 1\<close> and the second
  when \<open>nargs \<ge> 2\<close>. Any other result is the single operand of the product
  \<open>f * result\<close>, whatever \<open>nargs\<close> is: a float, a bool or an int within the float range
  comes back as one float product, and \<open>None\<close>, a string or a list raises TypeError.
\<close>

theorem non_tuple_single_product:
  assumes "get_item2 conversion_data dimension u = Inr f"
  shows "\<exists>decorator. atomic_units dimension nargs = Inr decorator
     \<and> (func args = Inr r \<and> to_float r = Inr x \<longrightarrow>
          decorator func args (Some u) = Inr (PFloat (fmul f x)))
     \<and> (func args = Inr r \<and> (r = PNone \<or> (\<exists>s. r = PStr s) \<or> (\<exists>l. r = PList l)) \<longrightarrow>
          decorator func args (Some u) = Inl TypeError)
     \<and> (func args = Inr (PTuple [PFloat a, PFloat b]) \<longrightarrow>
          decorator func args (Some u)
            = Inr (PTuple [PFloat (if 0 < nargs then fmul f a else a),
                           PFloat (if 1 < nargs then fmul f b else b)]))"
proof -
  from get_item2_registered [OF assms] obtain data where
    d: "dict_get conversion_data dimension = Inr data" and g: "dict_get data u = Inr f"
    and s: "u \<notin> set [''au'', ''atomic_units'']"
    by blast
  let ?w = "wrapper dimension nargs data"
  have num: "?w func args (Some u) = Inr (PFloat (fmul f x))"
    if "func args = Inr r" and "to_float r = Inr x"
    using that
      wrapper_scalar [where func = func and args = args, OF g s that(1) to_float_not_tuple [OF that(2)]]
    by (simp add: float_mul_def)
  have other: "?w func args (Some u) = Inl TypeError"
    if "func args = Inr r" and "r = PNone \<or> (\<exists>s. r = PStr s) \<or> (\<exists>l. r = PList l)"
  proof -
    from that(2) have "\<not> is_tuple r" and "to_float r = Inl TypeError"
      by auto
    with wrapper_scalar [where func = func and args = args, OF g s that(1)] show ?thesis
      by (simp add: float_mul_def)
  qed
  have pair: "?w func args (Some u)
      = Inr (PTuple [PFloat (if 0 < nargs then fmul f a else a),
                     PFloat (if 1 < nargs then fmul f b else b)])"
    if "func args = Inr (PTuple [PFloat a, PFloat b])"
    using that g by (simp add: wrapper_convert [OF g s] float_mul_def)
  show ?thesis
    using atomic_units_registered [OF d, of nargs] num other pair by blast
qed

theorem non_tuple_single_product_witness:
  "get_item2 conversion_data ''energy'' ''eV'' = Inr (Fin eV_value)
   \<and> (\<exists>decorator. atomic_units ''energy'' 0 = Inr decorator
        \<and> decorator (\<lambda>u::unit. Inr (PFloat (Fin 3))) () (Some ''eV'')
            = Inr (PFloat (Fin (2872246616189761 / 2 ^ 45)))
        \<and> decorator (\<lambda>u::unit. Inr (PList [PFloat (Fin 2), PFloat (Fin 3)])) () (Some ''eV'')
            = Inl TypeError
        \<and> decorator (\<lambda>u::unit. Inr (PTuple [PFloat (Fin 2), PFloat (Fin 3)])) () (Some ''eV'')
            = Inr (PTuple [PFloat (Fin 2), PFloat (Fin 3)]))
   \<and> (\<exists>decorator. atomic_units ''energy'' 1 = Inr decorator
        \<and> decorator (\<lambda>u::unit. Inr (PTuple [PFloat (Fin 2), PFloat (Fin 3)])) () (Some ''eV'')
            = Inr (PTuple [PFloat (Fin (3829662154919681 / 2 ^ 46)), PFloat (Fin 3)]))"
proof -
  let ?s = "\<lambda>u::unit. (Inr (PFloat (Fin 3)) :: pyerr + pyval)"
  let ?l = "\<lambda>u::unit. (Inr (PList [PFloat (Fin 2), PFloat (Fin 3)]) :: pyerr + pyval)"
  let ?t = "\<lambda>u::unit. (Inr (PTuple [PFloat (Fin 2), PFloat (Fin 3)]) :: pyerr + pyval)"
  have g: "get_item2 conversion_data ''energy'' ''eV'' = Inr (Fin eV_value)"
    by (rule get_item2_energy_eV)
  from non_tuple_single_product [OF g, where nargs = 0 and func = ?s and args = "()"
      and r = "PFloat (Fin 3)" and x = "Fin 3"]
  obtain ds where a1: "atomic_units ''energy'' 0 = Inr ds"
    and r1: "ds ?s () (Some ''eV'') = Inr (PFloat (fmul (Fin eV_value) (Fin 3)))"
    by auto
  from non_tuple_single_product [OF g, where nargs = 0 and func = ?l and args = "()"
      and r = "PList [PFloat (Fin 2), PFloat (Fin 3)]"]
  obtain dl where a2: "atomic_units ''energy'' 0 = Inr dl"
    and r2: "dl ?l () (Some ''eV'') = Inl TypeError"
    by auto
  from non_tuple_single_product [OF g, where nargs = 0 and func = ?t and args = "()"
      and a = "Fin 2" and b = "Fin 3"]
  obtain dt where a3: "atomic_units ''energy'' 0 = Inr dt"
    and r3: "dt ?t () (Some ''eV'') = Inr (PTuple [PFloat (Fin 2), PFloat (Fin 3)])"
    by auto
  from non_tuple_single_product [OF g, where nargs = 1 and func = ?t and args = "()"
      and a = "Fin 2" and b = "Fin 3"]
  obtain d1 where a4: "atomic_units ''energy'' 1 = Inr d1"
    and r4: "d1 ?t () (Some ''eV'')
        = Inr (PTuple [PFloat (fmul (Fin eV_value) (Fin 2)), PFloat (Fin 3)])"
    by auto
  from a1 a2 a3 have "dl = ds" "dt = ds" by simp_all
  with r1 r2 r3 have "ds ?s () (Some ''eV'') = Inr (PFloat (Fin (2872246616189761 / 2 ^ 45)))"
    and "ds ?l () (Some ''eV'') = Inl TypeError"
    and "ds ?t () (Some ''eV'') = Inr (PTuple [PFloat (Fin 2), PFloat (Fin 3)])"
    by (simp_all add: eV_times_three)
  moreover from r4 have "d1 ?t () (Some ''eV'')
      = Inr (PTuple [PFloat (Fin (3829662154919681 / 2 ^ 46)), PFloat (Fin 3)])"
    by (simp add: eV_times_two)
  ultimately show ?thesis
    using g a1 a4 by blast
qed

subsection \<open>The error branch\<close>

lemma sublist_mid: "sublist xs (ps @ xs @ ss)"
  by (auto simp: sublist_def)

lemma join_comma_sublist:
  "k \<in> set ks \<Longrightarrow> sublist k (join_comma ks)"
proof (induction ks rule: join_comma.induct)
  case 1
  then show ?case by simp
next
  case (2 s)
  then show ?case by simp
next
  case (3 s t ts)
  show ?case
  proof (cases "k = s")
    case True
    then show ?thesis
      using sublist_mid [of s "[]" "'', '' @ join_comma (t # ts)"] by simp
  next
    case False
    with 3 have "sublist k (join_comma (t # ts))" by simp
    then obtain ps ss where "join_comma (t # ts) = ps @ k @ ss"
      by (auto simp: sublist_def)
    then have "join_comma (s # t # ts) = (s @ '', '' @ ps) @ k @ ss" by simp
    then show ?thesis
      unfolding sublist_def by blast
  qed
qed

lemma str_list_sublist:
  assumes "k \<in> set ks"
  shows "sublist (repr_str k) (str_list ks)"
proof -
  from assms have "repr_str k \<in> set (map repr_str ks)" by simp
  then have "sublist (repr_str k) (join_comma (map repr_str ks))"
    by (rule join_comma_sublist)
  then obtain ps ss where "join_comma (map repr_str ks) = ps @ repr_str k @ ss"
    by (auto simp: sublist_def)
  then have "str_list ks = (''['' @ ps) @ repr_str k @ (ss @ '']'')"
    by (simp add: str_list_def)
  then show ?thesis
    unfolding sublist_def by blast
qed

lemma unrecognised_msg_parts:
  "sublist dimension (unrecognised_msg dimension u ks)"
  "sublist u (unrecognised_msg dimension u ks)"
  "sublist (str_list ks) (unrecognised_msg dimension u ks)"
proof -
  have "unrecognised_msg dimension u ks
          = ''unrecognised '' @ dimension @ ('' units : '' @ u @ '' \<newline>supported units: '' @ str_list ks)"
    by (simp add: unrecognised_msg_def)
  then show "sublist dimension (unrecognised_msg dimension u ks)"
    unfolding sublist_def by blast
  have "unrecognised_msg dimension u ks
          = (''unrecognised '' @ dimension @ '' units : '') @ u @ ('' \<newline>supported units: '' @ str_list ks)"
    by (simp add: unrecognised_msg_def)
  then show "sublist u (unrecognised_msg dimension u ks)"
    unfolding sublist_def by blast
  have "unrecognised_msg dimension u ks
          = (''unrecognised '' @ dimension @ '' units : '' @ u @ '' \<newline>supported units: '') @ str_list ks @ []"
    by (simp add: unrecognised_msg_def)
  then show "sublist (str_list ks) (unrecognised_msg dimension u ks)"
    unfolding sublist_def by blast
qed

lemma wrapper_unrecognised:
  assumes "u \<notin> set (keys data)" and "u \<noteq> ''au''" and "u \<noteq> ''atomic_units''"
  shows "wrapper dimension nargs data func args (Some u)
           = Inl (ValueError (unrecognised_msg dimension u (keys data)))"
  using assms by (simp add: wrapper_def)

text \<open>
  Claim C3. For a registered dimension, a call of the wrapped function (or of
  \<open>convert_au\<close>) with a unit string that is neither a sentinel spelling nor a key of the
  dimension's dictionary returns no value: it raises \<open>ValueError\<close>, and the message
  contains the dimension name, the rejected unit string and the printed list of all keys
  of the dictionary, hence every key in quotes. The witness is
  \<open>convert_au(1.0, "energy", "furlong")\<close>, with the message written out.
\<close>

theorem unrecognised_units_error:
  assumes "dict_get conversion_data dimension = Inr data"
      and "u \<notin> set (keys data)" and "u \<noteq> ''au''" and "u \<noteq> ''atomic_units''"
  shows "(\<exists>decorator. atomic_units dimension nargs = Inr decorator
            \<and> decorator func args (Some u)
                = Inl (ValueError (unrecognised_msg dimension u (keys data))))
       \<and> convert_au v dimension (Some u)
            = Inl (ValueError (unrecognised_msg dimension u (keys data)))
       \<and> sublist dimension (unrecognised_msg dimension u (keys data))
       \<and> sublist u (unrecognised_msg dimension u (keys data))
       \<and> sublist (str_list (keys data)) (unrecognised_msg dimension u (keys data))
       \<and> (\<forall>k \<in> set (keys data). sublist (repr_str k) (unrecognised_msg dimension u (keys data)))"
proof -
  have "sublist (repr_str k) (unrecognised_msg dimension u (keys data))"
    if "k \<in> set (keys data)" for k
    using str_list_sublist [OF that] unrecognised_msg_parts(3) [of "keys data" dimension u]
    by (rule sublist_order.order_trans)
  then show ?thesis
    using assms(2-4)
    by (simp add: atomic_units_registered [OF assms(1)] wrapper_unrecognised
        unrecognised_msg_parts convert_au_def)
qed

theorem unrecognised_units_error_witness:
  "dict_get conversion_data ''energy'' = Inr energy_table
   \<and> ''furlong'' \<notin> set (keys energy_table)
   \<and> keys energy_table = [''SI'', ''joule'', ''J'', ''electronvolt'', ''eV'', ''Hz'', ''/m'',
        ''/cm'', ''wavenumbers'', ''kayser'']
   \<and> convert_au (PFloat (Fin 1.0)) ''energy'' (Some ''furlong'')
       = Inl (ValueError
           ''unrecognised energy units : furlong \<newline>supported units: ['SI', 'joule', 'J', 'electronvolt', 'eV', 'Hz', '/m', '/cm', 'wavenumbers', 'kayser']'')
   \<and> sublist ''['SI', 'joule', 'J', 'electronvolt', 'eV', 'Hz', '/m', '/cm', 'wavenumbers', 'kayser']''
        (unrecognised_msg ''energy'' ''furlong'' (keys energy_table))"
proof -
  have d: "dict_get conversion_data ''energy'' = Inr energy_table"
    by (simp add: dict_get_def conversion_data_eq)
  have n: "''furlong'' \<notin> set (keys energy_table)"
    by (simp add: keys_energy_table)
  have m: "unrecognised_msg ''energy'' ''furlong'' (keys energy_table)
      = ''unrecognised energy units : furlong \<newline>supported units: ['SI', 'joule', 'J', 'electronvolt', 'eV', 'Hz', '/m', '/cm', 'wavenumbers', 'kayser']''"
    by (simp add: keys_energy_table unrecognised_msg_def str_list_def repr_str_def)
  have s: "str_list (keys energy_table)
      = ''['SI', 'joule', 'J', 'electronvolt', 'eV', 'Hz', '/m', '/cm', 'wavenumbers', 'kayser']''"
    by (simp add: keys_energy_table str_list_def repr_str_def)
  from unrecognised_units_error [OF d n, of 1 "\<lambda>u::unit. Inr PNone" "()" "PFloat (Fin 1.0)"]
  show ?thesis
    using d n m s keys_energy_table by simp
qed

end
